theory Spec2Isabelle
  imports Complex_Main "HOL-Library.AList" "HOL-Library.Multiset"
begin

text \<open>
  A shallow embedding of the analysis engine of the data-analysis UI: the numeric
  kernels of CorrelationAnalysis.tsx, AlternativeMethods.tsx, EarlyDetection.tsx and
  SensitivityAnalysis.tsx. JavaScript numbers are modelled as mathematical reals (no
  rounding, no overflow); where the code can produce NaN or read an absent array
  element, the model makes that outcome an explicit value.
\<close>

section \<open>Values: numbers, cells and the dataset\<close>

text \<open>
  A JavaScript number that may be NaN. Arithmetic with NaN gives NaN, and every
  comparison with NaN is false. Reading an absent array element or object key gives
  \<open>undefined\<close>, which arithmetic turns into NaN, so such reads are modelled as NaN too.
  The infinities are not modelled: every division the modelled code performs on these
  values has a divisor that is checked to be non-zero first.
\<close>

datatype number = Val real | NaN

fun n_add :: "number \<Rightarrow> number \<Rightarrow> number" where
  "n_add (Val a) (Val b) = Val (a + b)"
| "n_add _ _ = NaN"

fun n_sub :: "number \<Rightarrow> number \<Rightarrow> number" where
  "n_sub (Val a) (Val b) = Val (a - b)"
| "n_sub _ _ = NaN"

fun n_mul :: "number \<Rightarrow> number \<Rightarrow> number" where
  "n_mul (Val a) (Val b) = Val (a * b)"
| "n_mul _ _ = NaN"

fun n_div :: "number \<Rightarrow> number \<Rightarrow> number" where
  "n_div (Val a) (Val b) = Val (a / b)"
| "n_div _ _ = NaN"

fun n_abs :: "number \<Rightarrow> number" where
  "n_abs (Val a) = Val \<bar>a\<bar>"
| "n_abs NaN = NaN"

text \<open>\<open>a > b\<close> on numbers.\<close>

fun n_gt :: "number \<Rightarrow> number \<Rightarrow> bool" where
  "n_gt (Val a) (Val b) = (a > b)"
| "n_gt _ _ = False"

text \<open>\<open>x || d\<close> on numbers: 0 and NaN are falsy.\<close>

fun n_or :: "number \<Rightarrow> real \<Rightarrow> number" where
  "n_or (Val a) d = (if a = 0 then Val d else Val a)"
| "n_or NaN d = Val d"

text \<open>\<open>xs[i]\<close> on an array of numbers, for arithmetic: NaN outside the array.\<close>

definition nth_number :: "real list \<Rightarrow> nat \<Rightarrow> number" where
  "nth_number xs i = (if i < length xs then Val (xs ! i) else NaN)"

text \<open>
  A cell of the sheet: absent (undefined or null), a number or a string. ExcelData is
  the record of types/index.ts.
\<close>

datatype cell = Empty | NumCell real | StrCell string

record ExcelData =
  ed_headers :: "string list"
  ed_data :: "cell list list"
  ed_sheetNames :: "string list"
  ed_activeSheet :: string

text \<open>\<open>row[i]\<close>: undefined beyond the end of the row.\<close>

definition cellAt :: "cell list \<Rightarrow> nat \<Rightarrow> cell" where
  "cellAt row i = (if i < length row then row ! i else Empty)"

text \<open>\<open>xs.indexOf(x)\<close>, with None for -1.\<close>

fun indexOf :: "'a list \<Rightarrow> 'a \<Rightarrow> nat option" where
  "indexOf [] x = None"
| "indexOf (y # ys) x = (if y = x then Some 0 else map_option Suc (indexOf ys x))"

subsection \<open>parseFloat\<close>

text \<open>
  The platform's parseFloat on the decimal literals: leading white space is skipped,
  then the longest prefix of the form sign, digits, fraction, exponent is read; when
  there is no digit the result is NaN. The literal Infinity has no value among the
  reals and is outside the model.
\<close>

definition isDigit :: "char \<Rightarrow> bool" where
  "isDigit c = (48 \<le> (of_char c :: nat) \<and> (of_char c :: nat) \<le> 57)"

definition isWhiteSpace :: "char \<Rightarrow> bool" where
  "isWhiteSpace c = ((of_char c :: nat) \<in> {9, 10, 11, 12, 13, 32})"

definition digitsValue :: "string \<Rightarrow> nat" where
  "digitsValue ds = foldl (\<lambda>a c. 10 * a + ((of_char c :: nat) - 48)) 0 ds"

definition exponentPart :: "string \<Rightarrow> int" where
  "exponentPart u =
     (case u of
        [] \<Rightarrow> 0
      | c # r \<Rightarrow>
          if c = CHR ''e'' \<or> c = CHR ''E'' then
            (let neg = (case r of [] \<Rightarrow> False | s # _ \<Rightarrow> s = CHR ''-'');
                 r' = (case r of [] \<Rightarrow> []
                       | s # t \<Rightarrow> if s = CHR ''-'' \<or> s = CHR ''+'' then t else r);
                 ds = takeWhile isDigit r'
             in if ds = [] then 0
                else if neg then - int (digitsValue ds) else int (digitsValue ds))
          else 0)"

definition parseFloat :: "string \<Rightarrow> number" where
  "parseFloat s =
     (let t = dropWhile isWhiteSpace s;
          neg = (case t of [] \<Rightarrow> False | c # _ \<Rightarrow> c = CHR ''-'');
          u = (case t of [] \<Rightarrow> []
               | c # r \<Rightarrow> if c = CHR ''-'' \<or> c = CHR ''+'' then r else t);
          ip = takeWhile isDigit u;
          u1 = dropWhile isDigit u;
          fp = (case u1 of [] \<Rightarrow> []
                | c # r \<Rightarrow> if c = CHR ''.'' then takeWhile isDigit r else []);
          u2 = (case u1 of [] \<Rightarrow> []
                | c # r \<Rightarrow> if c = CHR ''.'' then dropWhile isDigit r else u1)
      in if ip = [] \<and> fp = [] then NaN
         else
           let mant = real (digitsValue (ip @ fp)) / 10 ^ length fp;
               e = exponentPart u2;
               v = (if e < 0 then mant / 10 ^ nat (- e) else mant * 10 ^ nat e)
           in Val (if neg then - v else v))"

text \<open>
  \<open>parseFloat(cell?.toString() || d)\<close> for the default texts '0' and '' the code uses:
  an absent cell and the empty string take the default, a string is parsed, and a
  number is printed and parsed back to itself.
\<close>

definition cellNumber :: "string \<Rightarrow> cell \<Rightarrow> number" where
  "cellNumber d c =
     (case c of
        Empty \<Rightarrow> parseFloat d
      | NumCell r \<Rightarrow> Val r
      | StrCell s \<Rightarrow> parseFloat (if s = [] then d else s))"

text \<open>The numbers of a list that are not NaN, in order: \<open>.filter(val => !isNaN(val))\<close>.\<close>

fun notNaN :: "number list \<Rightarrow> real list" where
  "notNaN [] = []"
| "notNaN (Val v # xs) = v # notNaN xs"
| "notNaN (NaN # xs) = notNaN xs"

text \<open>
  \<open>cell?.toString() || ''\<close>. How a number prints is left to the platform: the function
  printing it is a parameter of every operation that needs the text of a cell.
\<close>

definition cellText :: "(real \<Rightarrow> string) \<Rightarrow> cell \<Rightarrow> string" where
  "cellText numberToString c =
     (case c of Empty \<Rightarrow> [] | NumCell r \<Rightarrow> numberToString r | StrCell s \<Rightarrow> s)"

text \<open>
  \<open>Array.prototype.sort\<close> with a comparator is stable; \<open>precedes a b\<close> says that the
  comparator is negative on (a, b). A comparator result of NaN counts as 0.
\<close>

fun insert_sorted :: "('a \<Rightarrow> 'a \<Rightarrow> bool) \<Rightarrow> 'a \<Rightarrow> 'a list \<Rightarrow> 'a list" where
  "insert_sorted precedes x [] = [x]"
| "insert_sorted precedes x (y # ys) =
     (if precedes y x then y # insert_sorted precedes x ys else x # y # ys)"

definition stable_sort :: "('a \<Rightarrow> 'a \<Rightarrow> bool) \<Rightarrow> 'a list \<Rightarrow> 'a list" where
  "stable_sort precedes xs = foldr (insert_sorted precedes) xs []"

text \<open>\<open>Math.max(...xs)\<close> and \<open>Math.min(...xs)\<close>, which the code applies to non-empty arrays only.\<close>

definition maximum :: "real list \<Rightarrow> real" where
  "maximum xs = foldl max (hd xs) (tl xs)"

definition minimum :: "real list \<Rightarrow> real" where
  "minimum xs = foldl min (hd xs) (tl xs)"

text \<open>A text between single quotes, as the error messages print a column name.\<close>

definition quoted :: "string \<Rightarrow> string" where
  "quoted s = CHR 0x27 # s @ [CHR 0x27]"

text \<open>
  An object from names to numbers (a WeightMap) is modelled as an association list in
  insertion order: assigning to a key that is present replaces its value in place,
  assigning to a new key appends it (\<open>AList.update\<close>). Enumeration follows the list,
  which is the platform's order for every key that does not look like an array index
  (those the platform enumerates first, in numeric order). Names inherited from the
  prototype of an object, such as constructor, are not modelled.
\<close>

type_synonym WeightMap = "(string \<times> real) list"

text \<open>Reading a key of an object held as an association list, with a default for an absent key.\<close>

definition lookupOr :: "'v \<Rightarrow> ('k \<times> 'v) list \<Rightarrow> 'k \<Rightarrow> 'v" where
  "lookupOr d m k = (case map_of m k of Some v \<Rightarrow> v | None \<Rightarrow> d)"

section \<open>Lambda rounding and power transformations (CorrelationAnalysis.tsx)\<close>

definition commonLambdas :: "real list" where
  "commonLambdas = [-2, -1, -0.5, 0, 0.5, 1, 2, 3]"

fun closest_loop :: "real \<Rightarrow> real list \<Rightarrow> real \<times> real \<Rightarrow> real \<times> real" where
  "closest_loop lam [] (closestLambda, minDiff) = (closestLambda, minDiff)"
| "closest_loop lam (l # ls) (closestLambda, minDiff) =
     (let diff = \<bar>lam - l\<bar>
      in if diff < minDiff then closest_loop lam ls (l, diff)
         else closest_loop lam ls (closestLambda, minDiff))"

definition roundLambda :: "real \<Rightarrow> real" where
  "roundLambda lam = fst (closest_loop lam commonLambdas (1, \<bar>lam - 1\<bar>))"

record PowerTransformation =
  pt_lambda :: real
  pt_name :: string
  pt_description :: string
  pt_transform :: "real \<Rightarrow> real"

definition powerTransformations :: "PowerTransformation list" where
  "powerTransformations =
     [\<lparr>pt_lambda = -2, pt_name = ''Inverse square'', pt_description = ''Inverse of squared values'',
        pt_transform = (\<lambda>v. if v \<le> 0 then 0 else 1 / (v * v))\<rparr>,
      \<lparr>pt_lambda = -1, pt_name = ''Inverse'', pt_description = ''Inverse/reciprocal transformation'',
        pt_transform = (\<lambda>v. if v \<le> 0 then 0 else 1 / v)\<rparr>,
      \<lparr>pt_lambda = -0.5, pt_name = ''Inverse square root'', pt_description = ''Inverse of square root'',
        pt_transform = (\<lambda>v. if v \<le> 0 then 0 else 1 / sqrt v)\<rparr>,
      \<lparr>pt_lambda = 0, pt_name = ''Logarithmic'', pt_description = ''Natural logarithm transformation'',
        pt_transform = (\<lambda>v. if v \<le> 0 then 0 else ln v)\<rparr>,
      \<lparr>pt_lambda = 0.5, pt_name = ''Square root'', pt_description = ''Square root transformation'',
        pt_transform = (\<lambda>v. if v < 0 then 0 else sqrt v)\<rparr>,
      \<lparr>pt_lambda = 1, pt_name = ''None'', pt_description = ''No transformation (original values)'',
        pt_transform = (\<lambda>v. v)\<rparr>,
      \<lparr>pt_lambda = 2, pt_name = ''Square'', pt_description = ''Squared values'',
        pt_transform = (\<lambda>v. v * v)\<rparr>,
      \<lparr>pt_lambda = 3, pt_name = ''Cube'', pt_description = ''Cubed values'',
        pt_transform = (\<lambda>v. v * v * v)\<rparr>]"

definition applyPowerTransformation :: "real list \<Rightarrow> real \<Rightarrow> real list" where
  "applyPowerTransformation vs lam =
     (case find (\<lambda>t. pt_lambda t = lam) powerTransformations of
        Some t \<Rightarrow> map (pt_transform t) vs
      | None \<Rightarrow>
          map (\<lambda>v. if v \<le> 0 then 0
                   else if \<bar>lam\<bar> < 1 / 10 ^ 10 then ln v
                   else (v powr lam - 1) / lam) vs)"

section \<open>Descriptive statistics and correlation (CorrelationAnalysis.tsx)\<close>

text \<open>A Box-Cox log-likelihood: a number or \<open>-Infinity\<close>, with the comparison \<open>a > b\<close>.\<close>

datatype loglik = NegInfinity | LogLik real

fun ll_gt :: "loglik \<Rightarrow> loglik \<Rightarrow> bool" where
  "ll_gt (LogLik a) (LogLik b) = (a > b)"
| "ll_gt (LogLik a) NegInfinity = True"
| "ll_gt NegInfinity _ = False"

definition calculateBoxCoxLogLikelihood :: "real list \<Rightarrow> real \<Rightarrow> loglik" where
  "calculateBoxCoxLogLikelihood values lam =
     (let n = length values in
      if n = 0 \<or> list_ex (\<lambda>v. v \<le> 0) values then NegInfinity
      else
        let transformedValues =
              (if \<bar>lam\<bar> < 1 / 10 ^ 10 then map ln values
               else map (\<lambda>v. (v powr lam - 1) / lam) values);
            mean = foldl (\<lambda>sum v. sum + v) 0 transformedValues / real n;
            variance = foldl (\<lambda>sum v. sum + (v - mean) ^ 2) 0 transformedValues / real n
        in if variance \<le> 0 then NegInfinity
           else LogLik (- real n * ln (sqrt variance)
                        + (lam - 1) * foldl (\<lambda>sum v. sum + ln v) 0 values))"

definition lambdaRange :: "real list" where
  "lambdaRange = [-2, -1.5, -1, -0.5, 0, 0.5, 1, 1.5, 2]"

fun lambda_search :: "real list \<Rightarrow> real list \<Rightarrow> real \<times> loglik \<Rightarrow> real \<times> loglik" where
  "lambda_search values [] (bestLambda, bestLogLikelihood) = (bestLambda, bestLogLikelihood)"
| "lambda_search values (lam # rest) (bestLambda, bestLogLikelihood) =
     (let logLikelihood = calculateBoxCoxLogLikelihood values lam
      in if ll_gt logLikelihood bestLogLikelihood
         then lambda_search values rest (lam, logLikelihood)
         else lambda_search values rest (bestLambda, bestLogLikelihood))"

definition findOptimalLambda :: "real list \<Rightarrow> real" where
  "findOptimalLambda values =
     (if list_ex (\<lambda>v. v \<le> 0) values then 1
      else fst (lambda_search values lambdaRange (1, NegInfinity)))"

record VariableStats =
  vs_mean :: real
  vs_stdDev :: real
  vs_min :: real
  vs_max :: real
  vs_skewness :: real
  vs_kurtosis :: real
  vs_isNormalDistributed :: bool
  vs_optimalLambda :: real
  vs_roundedLambda :: real

definition emptyStats :: VariableStats where
  "emptyStats =
     \<lparr>vs_mean = 0, vs_stdDev = 0, vs_min = 0, vs_max = 0, vs_skewness = 0, vs_kurtosis = 0,
      vs_isNormalDistributed = False, vs_optimalLambda = 1, vs_roundedLambda = 1\<rparr>"

definition calculateBasicStats :: "real list \<Rightarrow> VariableStats" where
  "calculateBasicStats values =
     (let n = length values in
      if n = 0 then emptyStats
      else
        let mean = foldl (\<lambda>sum val. sum + val) 0 values / real n;
            variance = foldl (\<lambda>sum val. sum + (val - mean) ^ 2) 0 values / real n;
            stdDev = sqrt variance;
            skewness =
              (if stdDev > 0
               then (foldl (\<lambda>sum val. sum + (val - mean) ^ 3) 0 values / real n) / stdDev ^ 3
               else 0);
            kurtosis =
              (if stdDev > 0
               then (foldl (\<lambda>sum val. sum + (val - mean) ^ 4) 0 values / real n) / stdDev ^ 4 - 3
               else 0);
            isNormalDistributed = (\<bar>skewness\<bar> < 1 \<and> \<bar>kurtosis\<bar> < 1);
            transform = (\<not> isNormalDistributed \<and> \<not> list_ex (\<lambda>v. v \<le> 0) values);
            optimalLambda = (if transform then findOptimalLambda values else 1);
            roundedLambda = (if transform then roundLambda optimalLambda else 1)
        in \<lparr>vs_mean = mean, vs_stdDev = stdDev, vs_min = minimum values, vs_max = maximum values,
            vs_skewness = skewness, vs_kurtosis = kurtosis,
            vs_isNormalDistributed = isNormalDistributed,
            vs_optimalLambda = optimalLambda, vs_roundedLambda = roundedLambda\<rparr>)"

text \<open>
  calculatePearsonCorrelation. The loop runs over the first n entries of both arrays,
  that is over their zip; the means divide the sum of the whole array by n.
\<close>

definition calculatePearsonCorrelation :: "real list \<Rightarrow> real list \<Rightarrow> real" where
  "calculatePearsonCorrelation x y =
     (let n = min (length x) (length y) in
      if n = 0 then 0
      else
        let xMean = foldl (\<lambda>sum val. sum + val) 0 x / real n;
            yMean = foldl (\<lambda>sum val. sum + val) 0 y / real n
        in case foldl (\<lambda>(numerator, xSumSquaredDiff, ySumSquaredDiff) (xi, yi).
                          let xDiff = xi - xMean; yDiff = yi - yMean
                          in (numerator + xDiff * yDiff,
                              xSumSquaredDiff + xDiff * xDiff,
                              ySumSquaredDiff + yDiff * yDiff))
                  (0, 0, 0) (zip x y) of
             (numerator, xSumSquaredDiff, ySumSquaredDiff) \<Rightarrow>
               if xSumSquaredDiff = 0 \<or> ySumSquaredDiff = 0 then 0
               else numerator / sqrt (xSumSquaredDiff * ySumSquaredDiff))"

text \<open>
  calculatePValue. When 1 - r * r is 0 the t statistic is infinite, and when it is
  negative the square root is NaN: in both cases every comparison of the banding is
  false and the last value is returned.
\<close>

definition calculatePValue :: "real \<Rightarrow> nat \<Rightarrow> real" where
  "calculatePValue r n =
     (let degreesOfFreedom = int n - 2 in
      if degreesOfFreedom < 1 then 1
      else if 1 - r * r \<le> 0 then 1 / 10000
      else
        let t = r * sqrt (real_of_int degreesOfFreedom) / sqrt (1 - r * r);
            tAbs = \<bar>t\<bar>
        in if tAbs < 1 then 0.5
           else if tAbs < 2 then 0.2
           else if tAbs < 2.5 then 0.05
           else if tAbs < 3 then 0.01
           else if tAbs < 4 then 0.001
           else 0.0001)"

text \<open>extractVariableData, for a sheet that is present: the error message or the two maps.\<close>

fun extractVariables ::
    "ExcelData \<Rightarrow> string list \<Rightarrow> (string \<times> real list) list \<times> (string \<times> VariableStats) list
      \<Rightarrow> string + (string \<times> real list) list \<times> (string \<times> VariableStats) list" where
  "extractVariables ed [] (newNumericData, newStats) = Inr (newNumericData, newStats)"
| "extractVariables ed (variable # rest) (newNumericData, newStats) =
     (case indexOf (ed_headers ed) variable of
        None \<Rightarrow> Inl (''Variable '' @ quoted variable @ '' not found in data.'')
      | Some columnIndex \<Rightarrow>
          let values = notNaN (map (\<lambda>row. cellNumber ''0'' (cellAt row columnIndex)) (ed_data ed))
          in if length values = 0
             then Inl (''Variable '' @ quoted variable @ '' contains no numeric data.'')
             else extractVariables ed rest
                    (AList.update variable values newNumericData,
                     AList.update variable (calculateBasicStats values) newStats))"

definition extractVariableData ::
    "ExcelData \<Rightarrow> string list
      \<Rightarrow> string + (string \<times> real list) list \<times> (string \<times> VariableStats) list" where
  "extractVariableData ed selectedVariables = extractVariables ed selectedVariables ([], [])"

record CorrelationResult =
  co_coefficient :: real
  co_pValue :: real
  co_isSignificant :: bool

definition significanceLevel :: real where
  "significanceLevel = 0.05"

text \<open>
  handleRun of the correlation component (renamed: the ranking component has a
  handleRun too). Every selected variable has an entry in both maps once the extraction
  has succeeded, so the defaults of the reads are never taken.
\<close>

definition correlationCell :: "(string \<times> real list) list \<Rightarrow> string \<Rightarrow> string \<Rightarrow> CorrelationResult" where
  "correlationCell transformedData var1 var2 =
     (if var1 = var2 then \<lparr>co_coefficient = 1, co_pValue = 0, co_isSignificant = True\<rparr>
      else
        let coefficient = calculatePearsonCorrelation (lookupOr [] transformedData var1)
                            (lookupOr [] transformedData var2);
            n = min (length (lookupOr [] transformedData var1))
                  (length (lookupOr [] transformedData var2));
            pValue = calculatePValue coefficient n
        in \<lparr>co_coefficient = coefficient, co_pValue = pValue,
            co_isSignificant = (pValue \<le> significanceLevel)\<rparr>)"

definition handleRunCorrelation ::
    "ExcelData option \<Rightarrow> string list \<Rightarrow> string + CorrelationResult list list" where
  "handleRunCorrelation excelData selectedVariables =
     (case excelData of
        None \<Rightarrow> Inl ''Please select at least two variables for correlation analysis.''
      | Some ed \<Rightarrow>
          if length selectedVariables < 2
          then Inl ''Please select at least two variables for correlation analysis.''
          else
            case extractVariableData ed selectedVariables of
              Inl message \<Rightarrow> Inl message
            | Inr (newNumericData, newStats) \<Rightarrow>
                let transformedData =
                      fold (\<lambda>variable td.
                              AList.update variable
                                (applyPowerTransformation (lookupOr [] newNumericData variable)
                                   (vs_roundedLambda (lookupOr emptyStats newStats variable)))
                                td)
                        selectedVariables []
                in Inr (map (\<lambda>var1. map (\<lambda>var2. correlationCell transformedData var1 var2)
                                     selectedVariables)
                          selectedVariables))"

text \<open>
  The series of a column in the words of the amended claim C4: an absent cell and an
  empty text count as 0, a number counts as itself, any other text counts as the number
  it parses to and is dropped when it parses to none.
\<close>

definition seriesOfColumn :: "cell list list \<Rightarrow> nat \<Rightarrow> real list" where
  "seriesOfColumn rows columnIndex =
     concat (map (\<lambda>row. case cellAt row columnIndex of
                           Empty \<Rightarrow> [0]
                         | NumCell r \<Rightarrow> [r]
                         | StrCell s \<Rightarrow>
                             if s = [] then [0]
                             else (case parseFloat s of Val v \<Rightarrow> [v] | NaN \<Rightarrow> []))
                   rows)"

section \<open>Trend forecasting: exponential smoothing (EarlyDetection.tsx)\<close>

function smoothing_loop :: "real list \<Rightarrow> real \<Rightarrow> nat \<Rightarrow> real list \<Rightarrow> real list" where
  "smoothing_loop xs alpha i result =
     (if i < length xs
      then smoothing_loop xs alpha (i + 1)
             (result @ [alpha * xs ! (i - 1) + (1 - alpha) * result ! (i - 1)])
      else result)"
  by pat_completeness auto
termination
  by (relation "measure (\<lambda>(xs, alpha, i, result). length xs - i)") auto

declare smoothing_loop.simps [simp del]

definition exponentialSmoothing :: "real list \<Rightarrow> real \<Rightarrow> real list" where
  "exponentialSmoothing xs alpha =
     (if length xs = 0 then []
      else
        let result = smoothing_loop xs alpha 1 [xs ! 0];
            nextPrediction = alpha * xs ! (length xs - 1) + (1 - alpha) * result ! (length result - 1)
        in result @ [nextPrediction])"

text \<open>
  The rest of the forecasting component. The supplier history is an object from
  supplier names to objects from category names to the observed values and their time
  cells. A row entry is an object too, with the fixed keys supplier and time and one
  key for each category that has a number in the row.
\<close>

datatype Trend = Up | Down | Stable

type_synonym SupplierHistory = "(string \<times> (string \<times> real list \<times> cell list) list) list"

record PredictionResult =
  pr_supplier :: string
  pr_category :: string
  pr_actualValues :: "real list"
  pr_predictedValues :: "real list"
  pr_nextPrediction :: real
  pr_accuracy :: real
  pr_trend :: Trend
  pr_letterGrade :: string
  pr_predictedLetterGrade :: string

record ForecastState =
  fc_excelData :: "ExcelData option"
  fc_timeColumn :: string
  fc_supplierColumn :: string
  fc_categoryColumns :: "string list"
  fc_alphaValue :: real
  fc_declineThreshold :: real
  fc_supplierHistory :: SupplierHistory
  fc_predictionResults :: "PredictionResult list"
  fc_overallAccuracy :: real
  fc_cdGradeAccuracy :: real
  fc_error :: "string option"
  fc_tabValue :: nat

definition getLetterGrade :: "real \<Rightarrow> string" where
  "getLetterGrade score =
     (if score \<ge> 85 then ''A'' else if score \<ge> 70 then ''B'' else if score \<ge> 50 then ''C'' else ''D'')"

definition calculateAccuracy :: "real list \<Rightarrow> real list \<Rightarrow> real" where
  "calculateAccuracy actual predicted =
     (if length actual = 0 \<or> length predicted \<noteq> length actual then 0
      else 100 - foldl (\<lambda>totalError (a, p). totalError + \<bar>a - p\<bar>) 0 (zip actual predicted)
                   / real (length actual))"

text \<open>
  calculateTrend. A previous value of 0 makes the percent change infinite, with the
  sign of the last value, or NaN when the last value is 0 too; NaN fails both
  comparisons. (A negative zero, which would turn the sign, does not exist among the
  reals.)
\<close>

definition calculateTrend :: "real \<Rightarrow> real list \<Rightarrow> Trend" where
  "calculateTrend declineThreshold lastPredictions =
     (if length lastPredictions < 2 then Stable
      else
        let lastValue = lastPredictions ! (length lastPredictions - 1);
            prevValue = lastPredictions ! (length lastPredictions - 2)
        in if prevValue = 0 then
             (if lastValue > 0 then Up else if lastValue < 0 then Down else Stable)
           else
             let percentChange = ((lastValue - prevValue) / prevValue) * 100
             in if percentChange > declineThreshold then Up
                else if percentChange < - declineThreshold then Down
                else Stable)"

text \<open>\<open>!cell\<close> is false exactly for a cell that is present, not 0 and not the empty text.\<close>

definition truthy :: "cell \<Rightarrow> bool" where
  "truthy c = (case c of Empty \<Rightarrow> False | NumCell r \<Rightarrow> r \<noteq> 0 | StrCell s \<Rightarrow> s \<noteq> [])"

fun categoryIndices :: "string list \<Rightarrow> string list \<Rightarrow> string + nat list" where
  "categoryIndices headers [] = Inr []"
| "categoryIndices headers (col # cols) =
     (case indexOf headers col of
        None \<Rightarrow> Inl (''Error extracting data: Category column '' @ quoted col @ '' not found in data.'')
      | Some idx \<Rightarrow> map_sum id (\<lambda>rest. idx # rest) (categoryIndices headers cols))"

definition rowEntry ::
    "(real \<Rightarrow> string) \<Rightarrow> nat \<Rightarrow> nat \<Rightarrow> (string \<times> nat) list \<Rightarrow> cell list \<Rightarrow> (string \<times> cell) list \<times> bool" where
  "rowEntry numberToString timeColumnIndex supplierColumnIndex categories row =
     fold (\<lambda>(category, idx) (entry, hasValidData).
             case cellNumber [] (cellAt row idx) of
               NaN \<Rightarrow> (entry, hasValidData)
             | Val v \<Rightarrow> (AList.update category (NumCell v) entry, True))
       categories
       ([(''supplier'', StrCell (cellText numberToString (cellAt row supplierColumnIndex))),
         (''time'', cellAt row timeColumnIndex)],
        False)"

definition addObservation :: "string \<Rightarrow> string \<Rightarrow> real \<Rightarrow> cell \<Rightarrow> SupplierHistory \<Rightarrow> SupplierHistory" where
  "addObservation supplier category v t history =
     (let categories = lookupOr [] history supplier;
          series = lookupOr ([], []) categories category
      in AList.update supplier
           (AList.update category (fst series @ [v], snd series @ [t]) categories) history)"

definition addEntry ::
    "(real \<Rightarrow> string) \<Rightarrow> string list \<Rightarrow> (string \<times> cell) list \<Rightarrow> SupplierHistory \<Rightarrow> SupplierHistory" where
  "addEntry numberToString categoryColumns entry history =
     (let supplier = cellText numberToString (lookupOr Empty entry ''supplier'');
          history1 = (case map_of history supplier of
                        None \<Rightarrow> AList.update supplier [] history
                      | Some _ \<Rightarrow> history)
      in fold (\<lambda>category h.
                 case lookupOr Empty entry category of
                   NumCell v \<Rightarrow> addObservation supplier category v (lookupOr Empty entry ''time'') h
                 | _ \<Rightarrow> h)
           categoryColumns history1)"

text \<open>extractData: the error message it sets, or the history it passes to setSupplierHistory.\<close>

definition extractData :: "(real \<Rightarrow> string) \<Rightarrow> ForecastState \<Rightarrow> string + SupplierHistory" where
  "extractData numberToString st =
     (case fc_excelData st of
        None \<Rightarrow> Inl ''Please select required columns for analysis.''
      | Some excelData \<Rightarrow>
          if fc_timeColumn st = [] \<or> fc_supplierColumn st = [] \<or> length (fc_categoryColumns st) = 0
          then Inl ''Please select required columns for analysis.''
          else
            case (indexOf (ed_headers excelData) (fc_timeColumn st),
                  indexOf (ed_headers excelData) (fc_supplierColumn st)) of
              (Some timeColumnIndex, Some supplierColumnIndex) \<Rightarrow>
                (case categoryIndices (ed_headers excelData) (fc_categoryColumns st) of
                   Inl message \<Rightarrow> Inl message
                 | Inr indices \<Rightarrow>
                     let rows = filter (\<lambda>row. truthy (cellAt row timeColumnIndex) \<and>
                                               truthy (cellAt row supplierColumnIndex))
                                  (ed_data excelData);
                         entries = map (rowEntry numberToString timeColumnIndex supplierColumnIndex
                                          (zip (fc_categoryColumns st) indices)) rows;
                         dat = map fst (filter snd entries)
                     in if length dat = 0 then Inl ''No valid data found for analysis.''
                        else Inr (fold (addEntry numberToString (fc_categoryColumns st)) dat []))
            | _ \<Rightarrow> Inl ''Selected columns not found in data.'')"

definition predictSeries :: "real \<Rightarrow> real \<Rightarrow> string \<Rightarrow> string \<Rightarrow> real list \<Rightarrow> PredictionResult" where
  "predictSeries alphaValue declineThreshold supplier category values =
     (let actualValues = values;
          smoothedValues = exponentialSmoothing values alphaValue;
          nextPrediction = smoothedValues ! (length smoothedValues - 1);
          predictedValues = butlast smoothedValues
      in \<lparr>pr_supplier = supplier,
          pr_category = category,
          pr_actualValues = actualValues,
          pr_predictedValues = predictedValues,
          pr_nextPrediction = nextPrediction,
          pr_accuracy = calculateAccuracy actualValues predictedValues,
          pr_trend = calculateTrend declineThreshold smoothedValues,
          pr_letterGrade = getLetterGrade (actualValues ! (length actualValues - 1)),
          pr_predictedLetterGrade =
            getLetterGrade (predictedValues ! (length predictedValues - 1))\<rparr>)"

text \<open>
  runPrediction: the state the next render sees. extractData hands the fresh history
  to setSupplierHistory, and the loop that follows reads \<open>supplierHistory\<close>, the state
  of the render that created the handler. The comparison of supplier names is the
  platform's localeCompare, a parameter.
\<close>

definition resultPrecedes :: "(string \<Rightarrow> string \<Rightarrow> int) \<Rightarrow> PredictionResult \<Rightarrow> PredictionResult \<Rightarrow> bool" where
  "resultPrecedes localeCompare a b =
     (if pr_trend a = Down \<and> pr_trend b \<noteq> Down then True
      else if pr_trend a \<noteq> Down \<and> pr_trend b = Down then False
      else localeCompare (pr_supplier a) (pr_supplier b) < 0)"

definition runPrediction ::
    "(real \<Rightarrow> string) \<Rightarrow> (string \<Rightarrow> string \<Rightarrow> int) \<Rightarrow> ForecastState \<Rightarrow> ForecastState" where
  "runPrediction numberToString localeCompare st =
     (case extractData numberToString st of
        Inl message \<Rightarrow> st\<lparr>fc_error := Some message\<rparr>
      | Inr history \<Rightarrow>
          let results =
                concat (map (\<lambda>(supplier, categories).
                          concat (map (\<lambda>(category, values, times).
                                    if length values < 3 then []
                                    else [predictSeries (fc_alphaValue st) (fc_declineThreshold st)
                                            supplier category values])
                                  categories))
                        (fc_supplierHistory st));
              totalPredictions = length results;
              totalGradeMatches =
                length (filter (\<lambda>r. pr_letterGrade r = pr_predictedLetterGrade r) results);
              cdResults = filter (\<lambda>r. pr_letterGrade r = ''C'' \<or> pr_letterGrade r = ''D'') results;
              totalCDGrades = length cdResults;
              cdGradeMatches =
                length (filter (\<lambda>r. pr_letterGrade r = pr_predictedLetterGrade r) cdResults)
          in st\<lparr>fc_supplierHistory := history,
                fc_predictionResults := stable_sort (resultPrecedes localeCompare) results,
                fc_overallAccuracy :=
                  (if totalPredictions > 0
                   then (real totalGradeMatches / real totalPredictions) * 100
                   else fc_overallAccuracy st),
                fc_cdGradeAccuracy :=
                  (if totalCDGrades > 0
                   then (real cdGradeMatches / real totalCDGrades) * 100
                   else fc_cdGradeAccuracy st),
                fc_tabValue := 1\<rparr>)"

section \<open>Multi-criteria ranking (AlternativeMethods.tsx)\<close>

text \<open>
  The component state the ranking reads and writes. RankedSupplier is the component's
  SupplierScore interface (renamed: SensitivityAnalysis.tsx declares another one).
  \<open>totalWeight\<close> is display state only and is left out. An event handler reads the state
  of the render that created it: a setter called inside the handler changes what the
  next render sees, not what the rest of the handler reads.
\<close>

datatype AnalysisMethod = Topsis | Euclidean

record CriterionWeight =
  cr_criterion :: string
  cr_weight :: real

record RankedSupplier =
  rs_supplier :: string
  rs_score :: number
  rs_distance :: "number option"
  rs_criteriaScores :: "(string \<times> number) list"
  rs_originalRank :: nat
  rs_rankChange :: int

record AnalysisResult =
  ar_method :: AnalysisMethod
  ar_suppliers :: "string list"
  ar_criteria :: "string list"
  ar_rankedSuppliers :: "RankedSupplier list"
  ar_evaluationColumn :: string
  ar_weights :: WeightMap

record RankingState =
  am_excelData :: "ExcelData option"
  am_selectedMethod :: AnalysisMethod
  am_selectedVariables :: "string list"
  am_evaluationColumn :: string
  am_criteriaWeights :: "CriterionWeight list"
  am_result :: "AnalysisResult option"
  am_error :: "string option"
  am_originalRankings :: "(string \<times> nat) list"

text \<open>
  distributeRemainingWeight: the value its setter call leaves in criteriaWeights (the
  unchanged list where the function returns early).
\<close>

definition distributeRemainingWeight :: "CriterionWeight list \<Rightarrow> CriterionWeight list" where
  "distributeRemainingWeight criteriaWeights =
     (if length criteriaWeights = 0 then criteriaWeights
      else
        let sum = foldl (\<lambda>total cw. total + cr_weight cw) 0 criteriaWeights in
        if sum = 1 \<or> sum = 0 then criteriaWeights
        else
          let remaining = 1 - sum;
              nonZeroWeights = filter (\<lambda>cw. cr_weight cw > 0) criteriaWeights
          in if length nonZeroWeights = 0 then
               map (\<lambda>cw. cw\<lparr>cr_weight := 1 / real (length criteriaWeights)\<rparr>) criteriaWeights
             else
               let totalNonZero = foldl (\<lambda>total cw. total + cr_weight cw) 0 nonZeroWeights
               in map (\<lambda>cw. if cr_weight cw = 0 then cw
                           else cw\<lparr>cr_weight :=
                                  cr_weight cw + remaining * (cr_weight cw / totalNonZero)\<rparr>)
                    criteriaWeights)"

definition getNormalizedWeights :: "CriterionWeight list \<Rightarrow> WeightMap" where
  "getNormalizedWeights criteriaWeights =
     fold (\<lambda>cw obj. AList.update (cr_criterion cw) (cr_weight cw) obj) criteriaWeights []"

text \<open>\<open>weights[criterion]\<close> and \<open>scores[criterion]\<close> in arithmetic: NaN for an absent key.\<close>

definition weightNumber :: "WeightMap \<Rightarrow> string \<Rightarrow> number" where
  "weightNumber weights criterion =
     (case map_of weights criterion of Some w \<Rightarrow> Val w | None \<Rightarrow> NaN)"

text \<open>
  calculateOriginalRankings. The values of a criterion are never NaN (they were
  filtered), so the test on \<open>values[i]\<close> is the test \<open>i < values.length\<close>.
\<close>

definition baselineScore :: "(string \<times> real list) list \<Rightarrow> WeightMap \<Rightarrow> nat \<Rightarrow> number \<times> nat" where
  "baselineScore criteriaData weights i =
     foldl (\<lambda>(totalScore, validCount) (criterion, values).
              if i < length values
              then (n_add totalScore (n_mul (Val (values ! i)) (weightNumber weights criterion)),
                    validCount + 1)
              else (totalScore, validCount))
       (Val 0, 0) criteriaData"

definition calculateOriginalRankings ::
    "string list \<Rightarrow> (string \<times> real list) list \<Rightarrow> WeightMap \<Rightarrow> (string \<times> nat) list" where
  "calculateOriginalRankings suppliers criteriaData weights =
     (let supplierScores =
            concat (map (\<lambda>i. case baselineScore criteriaData weights i of
                               (totalScore, validCount) \<Rightarrow>
                                 if validCount > 0
                                 then [(suppliers ! i, n_div totalScore (Val (real validCount)))]
                                 else [])
                      [0..<length suppliers]);
          sorted = stable_sort (\<lambda>a b. n_gt (snd a) (snd b)) supplierScores
      in fold (\<lambda>(index, supplier) rankings. AList.update (fst supplier) (index + 1) rankings)
           (enumerate 0 sorted) [])"

text \<open>The per-criterion score of row i, from the values extracted for the criterion.\<close>

definition topsisScore :: "real list \<Rightarrow> nat \<Rightarrow> number" where
  "topsisScore values i =
     (let sumOfSquares = sqrt (foldl (\<lambda>sum v. sum + v * v) 0 values);
          normalizedValues = (if sumOfSquares = 0 then map (\<lambda>v. 0) values
                              else map (\<lambda>v. v / sumOfSquares) values);
          idealValue = maximum normalizedValues;
          antiIdealValue = minimum normalizedValues;
          normalizedValue = nth_number normalizedValues i;
          distanceToIdeal = n_abs (n_sub normalizedValue (Val idealValue));
          distanceToAntiIdeal = n_abs (n_sub normalizedValue (Val antiIdealValue))
      in n_div distanceToAntiIdeal (n_or (n_add distanceToIdeal distanceToAntiIdeal) 1))"

definition euclideanScore :: "real list \<Rightarrow> nat \<Rightarrow> number" where
  "euclideanScore values i =
     (let mn = minimum values;
          mx = maximum values;
          normalizedValues = (if mx = mn then map (\<lambda>v. 1 / 2) values
                              else map (\<lambda>v. (v - mn) / (mx - mn)) values);
          idealValue = 1;
          normalizedValue = nth_number normalizedValues i;
          distance = n_abs (n_sub normalizedValue (Val idealValue))
      in n_sub (Val 1) (n_div distance (Val 1)))"

definition criterionScore :: "AnalysisMethod \<Rightarrow> real list \<Rightarrow> nat \<Rightarrow> number" where
  "criterionScore method values i =
     (case method of Topsis \<Rightarrow> topsisScore values i | Euclidean \<Rightarrow> euclideanScore values i)"

text \<open>The loop extracting the numeric values of each selected criterion.\<close>

fun extractCriteria ::
    "ExcelData \<Rightarrow> string list \<Rightarrow> (string \<times> real list) list \<Rightarrow> string + (string \<times> real list) list" where
  "extractCriteria ed [] criteriaData = Inr criteriaData"
| "extractCriteria ed (criterion # rest) criteriaData =
     (case indexOf (ed_headers ed) criterion of
        None \<Rightarrow> Inl (''Criterion '' @ quoted criterion @ '' not found.'')
      | Some columnIndex \<Rightarrow>
          let values = notNaN (map (\<lambda>row. cellNumber ''0'' (cellAt row columnIndex)) (ed_data ed))
          in if length values = 0
             then Inl (''Criterion '' @ quoted criterion @ '' contains no numeric data.'')
             else extractCriteria ed rest (AList.update criterion values criteriaData))"

text \<open>
  \<open>supplierCriteriaScores[supplier][criterion] = score\<close>. Every supplier has an entry
  before the first assignment, so the default of the read is never taken.
\<close>

definition setScore ::
    "string \<Rightarrow> string \<Rightarrow> number \<Rightarrow> (string \<times> (string \<times> number) list) list
      \<Rightarrow> (string \<times> (string \<times> number) list) list" where
  "setScore supplier criterion score scs =
     AList.update supplier (AList.update criterion score (lookupOr [] scs supplier)) scs"

definition scoreAllCriteria ::
    "AnalysisMethod \<Rightarrow> string list \<Rightarrow> (string \<times> real list) list \<Rightarrow> string list
      \<Rightarrow> (string \<times> (string \<times> number) list) list" where
  "scoreAllCriteria method suppliers criteriaData selectedVariables =
     fold (\<lambda>criterion scs.
             let values = lookupOr [] criteriaData criterion
             in fold (\<lambda>i. setScore (suppliers ! i) criterion (criterionScore method values i))
                  [0..<length suppliers] scs)
       selectedVariables
       (fold (\<lambda>supplier scs. AList.update supplier [] scs) suppliers [])"

text \<open>
  The two ranking functions have the same text except for the per-criterion score, the
  weighted distance that only the Euclidean variant reports, and the method tag. The
  result is the error message, or the analysis result with the baseline ranks that go
  to setOriginalRankings.
\<close>

definition performRanking ::
    "AnalysisMethod \<Rightarrow> (real \<Rightarrow> string) \<Rightarrow> RankingState
      \<Rightarrow> string + (AnalysisResult \<times> (string \<times> nat) list)" where
  "performRanking method numberToString st =
     (case am_excelData st of
        None \<Rightarrow> Inl ''Please select the supplier column and at least one criterion.''
      | Some excelData \<Rightarrow>
          if am_evaluationColumn st = [] \<or> length (am_selectedVariables st) = 0
          then Inl ''Please select the supplier column and at least one criterion.''
          else
            case indexOf (ed_headers excelData) (am_evaluationColumn st) of
              None \<Rightarrow> Inl (''Evaluation column '' @ quoted (am_evaluationColumn st) @ '' not found.'')
            | Some evaluationColumnIndex \<Rightarrow>
                let suppliers = map (\<lambda>row. cellText numberToString (cellAt row evaluationColumnIndex))
                                  (ed_data excelData)
                in case extractCriteria excelData (am_selectedVariables st) [] of
                     Inl message \<Rightarrow> Inl message
                   | Inr criteriaData \<Rightarrow>
                       let normalizedWeights = getNormalizedWeights (am_criteriaWeights st);
                           originalRanks =
                             calculateOriginalRankings suppliers criteriaData normalizedWeights;
                           supplierCriteriaScores =
                             scoreAllCriteria method suppliers criteriaData (am_selectedVariables st);
                           supplierScores =
                             map (\<lambda>supplier.
                                    let criteriaScores = lookupOr [] supplierCriteriaScores supplier
                                    in \<lparr>rs_supplier = supplier,
                                        rs_score =
                                          foldl (\<lambda>overallScore criterion.
                                                   n_add overallScore
                                                     (n_mul (lookupOr NaN criteriaScores criterion)
                                                        (weightNumber normalizedWeights criterion)))
                                            (Val 0) (am_selectedVariables st),
                                        rs_distance =
                                          (case method of
                                             Topsis \<Rightarrow> None
                                           | Euclidean \<Rightarrow>
                                               Some (foldl (\<lambda>totalWeightedDistance criterion.
                                                       n_add totalWeightedDistance
                                                         (n_mul (n_sub (Val 1)
                                                                   (lookupOr NaN criteriaScores criterion))
                                                            (weightNumber normalizedWeights criterion)))
                                                     (Val 0) (am_selectedVariables st))),
                                        rs_criteriaScores = criteriaScores,
                                        rs_originalRank = 0,
                                        rs_rankChange = 0\<rparr>)
                               suppliers;
                           sorted = stable_sort (\<lambda>a b. n_gt (rs_score a) (rs_score b)) supplierScores;
                           rankedSuppliersWithChanges =
                             map (\<lambda>(index, supplier).
                                    let newRank = index + 1;
                                        originalRank = lookupOr 0 originalRanks (rs_supplier supplier)
                                    in supplier\<lparr>rs_originalRank := originalRank,
                                                rs_rankChange := int originalRank - int newRank\<rparr>)
                               (enumerate 0 sorted)
                       in Inr (\<lparr>ar_method = method,
                                 ar_suppliers = suppliers,
                                 ar_criteria = am_selectedVariables st,
                                 ar_rankedSuppliers = rankedSuppliersWithChanges,
                                 ar_evaluationColumn = am_evaluationColumn st,
                                 ar_weights = normalizedWeights\<rparr>,
                               originalRanks))"

definition performTOPSIS ::
    "(real \<Rightarrow> string) \<Rightarrow> RankingState \<Rightarrow> string + (AnalysisResult \<times> (string \<times> nat) list)" where
  "performTOPSIS = performRanking Topsis"

definition performEuclideanDistance ::
    "(real \<Rightarrow> string) \<Rightarrow> RankingState \<Rightarrow> string + (AnalysisResult \<times> (string \<times> nat) list)" where
  "performEuclideanDistance = performRanking Euclidean"

text \<open>
  handleRun: the state the next render sees. The redistribution goes to the stored
  weights; the ranking itself is computed from the state the handler was created with.
\<close>

definition handleRun :: "(real \<Rightarrow> string) \<Rightarrow> RankingState \<Rightarrow> RankingState" where
  "handleRun numberToString st =
     (let next = st\<lparr>am_criteriaWeights := distributeRemainingWeight (am_criteriaWeights st)\<rparr>
      in case (case am_selectedMethod st of
                 Topsis \<Rightarrow> performTOPSIS numberToString st
               | Euclidean \<Rightarrow> performEuclideanDistance numberToString st) of
           Inl message \<Rightarrow> next\<lparr>am_error := Some message\<rparr>
         | Inr (analysisResult, originalRanks) \<Rightarrow>
             next\<lparr>am_originalRankings := originalRanks,
                  am_result := Some analysisResult,
                  am_error := None\<rparr>)"

section \<open>Weight sensitivity (SensitivityAnalysis.tsx)\<close>

text \<open>
  Record fields carry a prefix, since several components declare fields of the same
  name.
\<close>

record CategoryWeight =
  cw_category :: string
  cw_weight :: real
  cw_selected :: bool

record SupplierScore =
  ss_supplier :: string
  ss_supplierScore :: real
  ss_categoryScores :: WeightMap

datatype OptimizationGoal = Maximize | Minimize

record SensitivityState =
  sa_categories :: "CategoryWeight list"
  sa_suppliers :: "SupplierScore list"
  sa_targetCategory :: string
  sa_optimizationGoal :: OptimizationGoal
  sa_originalWeights :: WeightMap
  sa_newWeights :: "WeightMap option"
  sa_absoluteChanges :: "WeightMap option"
  sa_newSupplierScores :: "SupplierScore list"
  sa_error :: "string option"

text \<open>\<open>m[k] || 0\<close>: an absent key reads as 0.\<close>

definition weightOr0 :: "WeightMap \<Rightarrow> string \<Rightarrow> real" where
  "weightOr0 m k = (case map_of m k of Some v \<Rightarrow> v | None \<Rightarrow> 0)"

definition calculateNewSupplierScores :: "SupplierScore list \<Rightarrow> WeightMap \<Rightarrow> SupplierScore list" where
  "calculateNewSupplierScores suppliers newWeights =
     map (\<lambda>s. s\<lparr>ss_supplierScore :=
                  foldl (\<lambda>sum c. sum + weightOr0 (ss_categoryScores s) c * weightOr0 newWeights c)
                    0 (map fst (ss_categoryScores s))\<rparr>)
       suppliers"

text \<open>
  The two branches of runSensitivityAnalysis differ only in the best weight; the
  redistribution loop over the other categories is the same text in both. A read
  \<open>origWeights[c.category]\<close> without a default is made only for selected categories,
  whose keys origWeights holds.
\<close>

definition bestWeight :: "OptimizationGoal \<Rightarrow> real \<Rightarrow> real" where
  "bestWeight goal targetCurrentWeight =
     (case goal of
        Maximize \<Rightarrow> min (9 / 10) (targetCurrentWeight * 2)
      | Minimize \<Rightarrow> max (1 / 10) (targetCurrentWeight / 2))"

definition runSensitivityAnalysis :: "SensitivityState \<Rightarrow> SensitivityState" where
  "runSensitivityAnalysis st =
     (if sa_targetCategory st = [] then
        st\<lparr>sa_error := Some ''Please select a target category to optimize''\<rparr>
      else
        let selectedCategories = filter cw_selected (sa_categories st) in
        if length selectedCategories < 2 then
          st\<lparr>sa_error := Some ''Please select at least 2 categories for the analysis''\<rparr>
        else
          let target = sa_targetCategory st;
              origWeights = fold (\<lambda>cat m. AList.update (cw_category cat) (cw_weight cat) m)
                              selectedCategories [];
              targetCurrentWeight = weightOr0 origWeights target;
              otherCategories = filter (\<lambda>c. cw_category c \<noteq> target) selectedCategories;
              totalOtherWeight =
                foldl (\<lambda>sum c. sum + the (map_of origWeights (cw_category c))) 0 otherCategories;
              best = bestWeight (sa_optimizationGoal st) targetCurrentWeight;
              remainingWeight = 1 - best;
              weightMap =
                fold (\<lambda>cat m.
                        AList.update (cw_category cat)
                          (remainingWeight *
                             (if totalOtherWeight > 0
                              then the (map_of origWeights (cw_category cat)) / totalOtherWeight
                              else 1 / real (length otherCategories))) m)
                  otherCategories (AList.update target best origWeights);
              yMap = fold (\<lambda>cat m.
                             AList.update (cw_category cat)
                               \<bar>weightOr0 weightMap (cw_category cat) -
                                weightOr0 origWeights (cw_category cat)\<bar> m)
                       selectedCategories []
          in st\<lparr>sa_originalWeights := origWeights,
                sa_newWeights := Some weightMap,
                sa_absoluteChanges := Some yMap,
                sa_newSupplierScores := calculateNewSupplierScores (sa_suppliers st) weightMap,
                sa_error := None\<rparr>)"

section \<open>Concrete inputs used by the witnesses and counterexamples\<close>

definition sensitivity_example :: "real \<Rightarrow> real \<Rightarrow> OptimizationGoal \<Rightarrow> SensitivityState" where
  "sensitivity_example wa wb goal =
     \<lparr>sa_categories = [\<lparr>cw_category = ''A'', cw_weight = wa, cw_selected = True\<rparr>,
                       \<lparr>cw_category = ''B'', cw_weight = wb, cw_selected = True\<rparr>,
                       \<lparr>cw_category = ''C'', cw_weight = 1 / 2, cw_selected = False\<rparr>],
      sa_suppliers = [], sa_targetCategory = ''A'', sa_optimizationGoal = goal,
      sa_originalWeights = [], sa_newWeights = None, sa_absoluteChanges = None,
      sa_newSupplierScores = [], sa_error = None\<rparr>"

definition ranking_example :: "cell list list \<Rightarrow> AnalysisMethod \<Rightarrow> real \<Rightarrow> RankingState" where
  "ranking_example rows method w =
     \<lparr>am_excelData = Some \<lparr>ed_headers = [''Name'', ''Score''], ed_data = rows,
                            ed_sheetNames = [''Sheet1''], ed_activeSheet = ''Sheet1''\<rparr>,
      am_selectedMethod = method,
      am_selectedVariables = [''Score''],
      am_evaluationColumn = ''Name'',
      am_criteriaWeights = [\<lparr>cr_criterion = ''Score'', cr_weight = w\<rparr>],
      am_result = None, am_error = None, am_originalRankings = []\<rparr>"

text \<open>A stand-in for the platform's number printing, for inputs whose identifiers are strings.\<close>

definition no_numbers :: "real \<Rightarrow> string" where
  "no_numbers r = ''?''"

definition duplicate_rows :: "cell list list" where
  "duplicate_rows =
     [[StrCell ''A'', NumCell 10], [StrCell ''B'', NumCell 5], [StrCell ''A'', NumCell 1],
      [Empty, NumCell 7], [Empty, NumCell 2]]"

definition text_cell_rows :: "cell list list" where
  "text_cell_rows =
     [[StrCell ''A'', StrCell ''n/a''], [StrCell ''B'', NumCell 1], [StrCell ''C'', NumCell 3]]"

definition correlation_sheet :: ExcelData where
  "correlation_sheet =
     \<lparr>ed_headers = [''X'', ''Y'', ''Z''],
      ed_data = [[NumCell 1, NumCell 2, StrCell ''n/a''],
                 [Empty, NumCell 4, StrCell ''none''],
                 [StrCell [], StrCell ''6.5'', StrCell ''x''],
                 [StrCell ''abc'', NumCell 8, StrCell ''-''],
                 [NumCell 5, NumCell 11, StrCell ''?'']],
      ed_sheetNames = [''Sheet1''], ed_activeSheet = ''Sheet1''\<rparr>"

definition forecast_example :: ForecastState where
  "forecast_example =
     \<lparr>fc_excelData =
        Some \<lparr>ed_headers = [''Month'', ''Supplier'', ''Quality''],
              ed_data = [[NumCell 1, StrCell ''Acme'', NumCell 90],
                         [NumCell 2, StrCell ''Acme'', NumCell 80],
                         [NumCell 3, StrCell ''Acme'', NumCell 60]],
              ed_sheetNames = [''Sheet1''], ed_activeSheet = ''Sheet1''\<rparr>,
      fc_timeColumn = ''Month'',
      fc_supplierColumn = ''Supplier'',
      fc_categoryColumns = [''Quality''],
      fc_alphaValue = 1 / 2,
      fc_declineThreshold = 5,
      fc_supplierHistory = [],
      fc_predictionResults = [],
      fc_overallAccuracy = 0,
      fc_cdGradeAccuracy = 0,
      fc_error = None,
      fc_tabValue = 0\<rparr>"

text \<open>A stand-in for the platform's localeCompare, for inputs with a single supplier.\<close>

definition no_collation :: "string \<Rightarrow> string \<Rightarrow> int" where
  "no_collation a b = 0"

text \<open>
  Concrete inputs are evaluated by rewriting with the code equations. The square root,
  the logarithm and the real power have none that rewriting can use, so they are kept
  as symbols.
\<close>

declare root_def [code del]
declare raw_ln_real_def [code del]
declare powr_def [code del]

section \<open>Exponential smoothing: the recurrence\<close>

lemma smoothing_loop_length:
  "i \<le> length xs \<Longrightarrow> length result = i \<Longrightarrow> length (smoothing_loop xs alpha i result) = length xs"
  apply (induction xs alpha i result rule: smoothing_loop.induct)
  apply (subst smoothing_loop.simps)
  apply auto
  done

lemma smoothing_loop_prefix:
  "i \<le> length xs \<Longrightarrow> length result = i \<Longrightarrow> k < i \<Longrightarrow> smoothing_loop xs alpha i result ! k = result ! k"
  apply (induction xs alpha i result rule: smoothing_loop.induct)
  apply (subst smoothing_loop.simps)
  apply (auto simp: nth_append)
  done

lemma smoothing_loop_step:
  "i \<le> length xs \<Longrightarrow> length result = i \<Longrightarrow> 0 < i \<Longrightarrow> i \<le> k \<Longrightarrow> k < length xs \<Longrightarrow>
   smoothing_loop xs alpha i result ! k =
     alpha * xs ! (k - 1) + (1 - alpha) * smoothing_loop xs alpha i result ! (k - 1)"
proof (induction xs alpha i result rule: smoothing_loop.induct)
  case (1 xs alpha i result)
  let ?r = "result @ [alpha * xs ! (i - 1) + (1 - alpha) * result ! (i - 1)]"
  have lt: "i < length xs" using 1 by simp
  have unf: "smoothing_loop xs alpha i result = smoothing_loop xs alpha (i + 1) ?r"
    using lt by (subst smoothing_loop.simps) simp
  show ?case
  proof (cases "k = i")
    case True
    have a: "smoothing_loop xs alpha (i + 1) ?r ! i = ?r ! i"
      using lt 1 by (intro smoothing_loop_prefix) auto
    have b: "smoothing_loop xs alpha (i + 1) ?r ! (i - 1) = ?r ! (i - 1)"
      using lt 1 by (intro smoothing_loop_prefix) auto
    show ?thesis unfolding unf using True a b 1 by (simp add: nth_append)
  next
    case False
    then have "i + 1 \<le> k" using 1 by simp
    then show ?thesis unfolding unf using 1(1)[OF lt] lt 1 by simp
  qed
qed

lemma fitted_length: "xs \<noteq> [] \<Longrightarrow> length (smoothing_loop xs alpha (Suc 0) [xs ! 0]) = length xs"
  by (rule smoothing_loop_length) (auto simp: Suc_leI)

lemma fitted_0: "xs \<noteq> [] \<Longrightarrow> smoothing_loop xs alpha (Suc 0) [xs ! 0] ! 0 = xs ! 0"
  using smoothing_loop_prefix[of "Suc 0" xs "[xs ! 0]" 0 alpha]
  by (simp add: Suc_leI)

lemma fitted_step: "Suc 0 \<le> i \<Longrightarrow> i < length xs \<Longrightarrow>
   smoothing_loop xs alpha (Suc 0) [xs ! 0] ! i =
     alpha * xs ! (i - 1) + (1 - alpha) * smoothing_loop xs alpha (Suc 0) [xs ! 0] ! (i - 1)"
  by (rule smoothing_loop_step) auto

lemma ES_eq: "xs \<noteq> [] \<Longrightarrow> exponentialSmoothing xs alpha =
   smoothing_loop xs alpha (Suc 0) [xs ! 0] @
     [alpha * last xs + (1 - alpha) * last (smoothing_loop xs alpha (Suc 0) [xs ! 0])]"
proof -
  assume ne: "xs \<noteq> []"
  have l: "length (smoothing_loop xs alpha (Suc 0) [xs ! 0]) = length xs"
    using ne by (rule fitted_length)
  have ne2: "smoothing_loop xs alpha (Suc 0) [xs ! 0] \<noteq> []"
    using l ne by auto
  show ?thesis
    using ne ne2 by (simp add: exponentialSmoothing_def Let_def last_conv_nth)
qed

lemma fitted_alpha0: "xs \<noteq> [] \<Longrightarrow> i < length xs \<Longrightarrow> smoothing_loop xs 0 (Suc 0) [xs ! 0] ! i = xs ! 0"
proof (induction i)
  case 0 then show ?case by (simp add: fitted_0)
next
  case (Suc i)
  then show ?case using fitted_step[of "Suc i" xs 0] by simp
qed

text \<open>
  Claim C7. For a non-empty observed sequence and any smoothing factor, the fitted
  sequence (the smoothed list without its last entry, as runPrediction takes it) has
  the length of the observed one, starts with the first observation and obeys
  fitted[i] = alpha * observed[i-1] + (1 - alpha) * fitted[i-1] for i >= 1; the
  forecast (the last entry) is alpha * observed[last] + (1 - alpha) * fitted[last].
  With alpha = 0 every fitted value is observed[0]; with alpha = 1 every fitted value
  from index 1 on is the previous observation.
\<close>

theorem exponentialSmoothing_recurrence:
  "xs \<noteq> [] \<Longrightarrow>
     length (butlast (exponentialSmoothing xs alpha)) = length xs \<and>
     butlast (exponentialSmoothing xs alpha) ! 0 = xs ! 0 \<and>
     (\<forall>i. 1 \<le> i \<and> i < length xs \<longrightarrow>
        butlast (exponentialSmoothing xs alpha) ! i =
          alpha * xs ! (i - 1) + (1 - alpha) * butlast (exponentialSmoothing xs alpha) ! (i - 1)) \<and>
     last (exponentialSmoothing xs alpha) =
       alpha * last xs + (1 - alpha) * last (butlast (exponentialSmoothing xs alpha)) \<and>
     (\<forall>i < length xs. butlast (exponentialSmoothing xs 0) ! i = xs ! 0) \<and>
     (\<forall>i. 1 \<le> i \<and> i < length xs \<longrightarrow> butlast (exponentialSmoothing xs 1) ! i = xs ! (i - 1))"
proof -
  assume ne: "xs \<noteq> []"
  have bl: "\<And>a. butlast (exponentialSmoothing xs a) = smoothing_loop xs a (Suc 0) [xs ! 0]"
    using ne by (simp add: ES_eq)
  have la: "last (exponentialSmoothing xs alpha) = alpha * last xs + (1 - alpha) * last (smoothing_loop xs alpha (Suc 0) [xs ! 0])"
    using ne by (simp add: ES_eq)
  have one: "\<And>i. 1 \<le> i \<Longrightarrow> i < length xs \<Longrightarrow> smoothing_loop xs 1 (Suc 0) [xs ! 0] ! i = xs ! (i - 1)"
    using fitted_step[of _ xs 1] by simp
  show ?thesis
    unfolding bl la using ne one
    by (simp add: fitted_length fitted_0 fitted_step fitted_alpha0)
qed

theorem exponentialSmoothing_recurrence_witness:
  "[10, 20, 40::real] \<noteq> [] \<and>
   length (butlast (exponentialSmoothing [10, 20, 40] (1/2))) = 3 \<and>
   butlast (exponentialSmoothing [10, 20, 40] (1/2)) ! 0 = 10 \<and>
   last (exponentialSmoothing [10, 20, 40] (1/2)) =
     1/2 * 40 + (1 - 1/2) * last (butlast (exponentialSmoothing [10, 20, 40] (1/2)))"
  using exponentialSmoothing_recurrence [of "[10, 20, 40]" "1/2"] by simp

section \<open>Rounding lambda to an interpretable value\<close>

lemma closest_loop_min:
  "closest_loop lam ls (c, \<bar>lam - c\<bar>) = (r, d) \<Longrightarrow>
     d = \<bar>lam - r\<bar> \<and> (r = c \<or> r \<in> set ls) \<and> \<bar>lam - r\<bar> \<le> \<bar>lam - c\<bar> \<and>
     (\<forall>l \<in> set ls. \<bar>lam - r\<bar> \<le> \<bar>lam - l\<bar>)"
proof (induction ls arbitrary: c)
  case Nil
  then show ?case by auto
next
  case (Cons l ls)
  show ?case
  proof (cases "\<bar>lam - l\<bar> < \<bar>lam - c\<bar>")
    case True
    then have "closest_loop lam ls (l, \<bar>lam - l\<bar>) = (r, d)" using Cons.prems by simp
    from Cons.IH[OF this] True show ?thesis by auto
  next
    case False
    then have "closest_loop lam ls (c, \<bar>lam - c\<bar>) = (r, d)" using Cons.prems by simp
    from Cons.IH[OF this] False show ?thesis by auto
  qed
qed

lemma roundLambda_min:
  "roundLambda lam \<in> set commonLambdas \<and>
   (\<forall>l \<in> set commonLambdas. \<bar>lam - roundLambda lam\<bar> \<le> \<bar>lam - l\<bar>)"
proof -
  obtain r d where rd: "closest_loop lam commonLambdas (1, \<bar>lam - 1\<bar>) = (r, d)"
    by (cases "closest_loop lam commonLambdas (1, \<bar>lam - 1\<bar>)") auto
  have r: "roundLambda lam = r" by (simp add: roundLambda_def rd)
  have one: "(1::real) \<in> set commonLambdas" by (simp add: commonLambdas_def)
  from closest_loop_min[OF rd] one show ?thesis unfolding r by auto
qed

lemma roundLambda_midpoints:
  "roundLambda (- (3/2)) = -2" "roundLambda (- (3/4)) = -1" "roundLambda (- (1/4)) = - (1/2)"
  "roundLambda (1/4) = 0" "roundLambda (3/4) = 1" "roundLambda (3/2) = 1" "roundLambda (5/2) = 2"
  by (simp_all add: roundLambda_def commonLambdas_def)

lemma roundLambda_tie:
  assumes l: "l \<in> set commonLambdas" and eq: "\<bar>lam - l\<bar> = \<bar>lam - roundLambda lam\<bar>"
    and lt: "l < roundLambda lam"
  shows "lam = 3/4 \<and> roundLambda lam = 1"
proof -
  define r where "r = roundLambda lam"
  have rS: "r \<in> set commonLambdas" and mn: "\<forall>m \<in> set commonLambdas. \<bar>lam - r\<bar> \<le> \<bar>lam - m\<bar>"
    using roundLambda_min[of lam] by (simp_all add: r_def)
  have mid: "lam = (l + r) / 2" using eq lt unfolding r_def[symmetric] by (auto simp: abs_if split: if_splits)
  have m: "\<bar>(l + r) / 2 - r\<bar> \<le> \<bar>(l + r) / 2 - x\<bar>" if "x \<in> set commonLambdas" for x
    using mn that unfolding mid by blast
  have m8: "\<bar>(l + r) / 2 - r\<bar> \<le> \<bar>(l + r) / 2 - (-2)\<bar>" "\<bar>(l + r) / 2 - r\<bar> \<le> \<bar>(l + r) / 2 - (-1)\<bar>"
    "\<bar>(l + r) / 2 - r\<bar> \<le> \<bar>(l + r) / 2 - (-1/2)\<bar>" "\<bar>(l + r) / 2 - r\<bar> \<le> \<bar>(l + r) / 2 - 0\<bar>"
    "\<bar>(l + r) / 2 - r\<bar> \<le> \<bar>(l + r) / 2 - 1/2\<bar>" "\<bar>(l + r) / 2 - r\<bar> \<le> \<bar>(l + r) / 2 - 1\<bar>"
    "\<bar>(l + r) / 2 - r\<bar> \<le> \<bar>(l + r) / 2 - 2\<bar>" "\<bar>(l + r) / 2 - r\<bar> \<le> \<bar>(l + r) / 2 - 3\<bar>"
    by (rule m, simp add: commonLambdas_def)+
  have lS: "l \<in> {-2,-1,-1/2,0,1/2,1,2,3}" and rS': "r \<in> {-2,-1,-1/2,0,1/2,1,2,3}"
    using l rS by (auto simp add: commonLambdas_def)
  have cases: "(l, r) \<in> {(-2,-1), (-1,-1/2), (-1/2,0), (0,1/2), (1/2,1), (1,2), (2,3)}"
    using lS rS' m8 lt unfolding r_def[symmetric]
    by (elim insertE emptyE; simp)
  have fx: "roundLambda ((l + r) / 2) = r" unfolding mid[symmetric] by (simp add: r_def)
  have no: "\<not> (l = a \<and> r = b)" if "roundLambda ((a + b) / 2) \<noteq> b" for a b
    using that fx by auto
  have n1: "\<not> (l = -2 \<and> r = -1)" by (rule no) (simp add: roundLambda_midpoints)
  have n2: "\<not> (l = -1 \<and> r = -1/2)" by (rule no) (simp add: roundLambda_midpoints)
  have n3: "\<not> (l = -1/2 \<and> r = 0)" by (rule no) (simp add: roundLambda_midpoints)
  have n4: "\<not> (l = 0 \<and> r = 1/2)" by (rule no) (simp add: roundLambda_midpoints)
  have n5: "\<not> (l = 1 \<and> r = 2)" by (rule no) (simp add: roundLambda_midpoints)
  have n6: "\<not> (l = 2 \<and> r = 3)" by (rule no) (simp add: roundLambda_midpoints)
  have "l = 1/2 \<and> r = 1"
    using cases n1 n2 n3 n4 n5 n6 unfolding insert_iff empty_iff prod.inject by blast
  then show ?thesis using mid unfolding r_def[symmetric] by simp
qed

text \<open>
  Claim C8, as amended. roundLambda returns a member of the list of common lambdas at
  minimal absolute difference from its argument. On an exact tie the smaller member is
  returned, with one exception: the scan is seeded with the value 1, so at
  lambda = 0.75, where 0.5 and 1 are equally near, the result is 1.
\<close>

theorem roundLambda_nearest:
  "roundLambda lam \<in> set commonLambdas \<and>
   (\<forall>l \<in> set commonLambdas. \<bar>lam - roundLambda lam\<bar> \<le> \<bar>lam - l\<bar>) \<and>
   (\<forall>l \<in> set commonLambdas. \<bar>lam - l\<bar> = \<bar>lam - roundLambda lam\<bar> \<longrightarrow>
       roundLambda lam \<le> l \<or> (lam = 3/4 \<and> roundLambda lam = 1))"
  using roundLambda_min[of lam] roundLambda_tie[of _ lam] by (auto simp: not_le)

theorem roundLambda_nearest_witness:
  "roundLambda (-3/2) = -2 \<and> (-1::real) \<in> set commonLambdas \<and>
   \<bar>(-3/2) - (-1::real)\<bar> = \<bar>(-3/2) - roundLambda (-3/2)\<bar> \<and> roundLambda (-3/2) \<le> -1"
  using roundLambda_nearest [of "-3/2"] by (simp add: roundLambda_midpoints commonLambdas_def)

text \<open>
  The claim as stated fails at lambda = 0.75: 0.5 and 1 are at the same distance 0.25,
  and the larger one, 1, is returned.
\<close>

theorem roundLambda_tie_counterexample:
  "roundLambda (3/4) = 1 \<and> (1/2::real) \<in> set commonLambdas \<and>
   \<bar>3/4 - (1/2::real)\<bar> = \<bar>3/4 - roundLambda (3/4)\<bar> \<and> (1/2::real) < roundLambda (3/4)"
  by (simp add: roundLambda_midpoints commonLambdas_def)

section \<open>Power transformation of a series\<close>

lemma find_pt: "find (\<lambda>t. pt_lambda t = lam) powerTransformations = None \<longleftrightarrow> lam \<notin> set commonLambdas"
  by (auto simp: powerTransformations_def commonLambdas_def)

text \<open>
  Claim C3, as amended. For a lambda that is not one of the eight tabulated values,
  applyPowerTransformation maps every non-positive value to 0 and every positive value
  v to ln v when |lambda| < 1e-10 and to (v^lambda - 1) / lambda otherwise. For a
  tabulated lambda the table's own function is applied instead: the plain power or
  root for -2, -1, -0.5, 0.5, the logarithm for 0 (each with the floor 0 on
  non-positive, for 0.5 on negative, input), and the identity, the square and the cube
  for 1, 2 and 3 with no floor at all.
\<close>

theorem applyPowerTransformation_cases:
  "(lam \<notin> set commonLambdas \<longrightarrow>
      applyPowerTransformation vs lam =
        map (\<lambda>v. if v \<le> 0 then 0 else if \<bar>lam\<bar> < 1 / 10 ^ 10 then ln v else (v powr lam - 1) / lam) vs) \<and>
   applyPowerTransformation vs (-2) = map (\<lambda>v. if v \<le> 0 then 0 else 1 / (v * v)) vs \<and>
   applyPowerTransformation vs (-1) = map (\<lambda>v. if v \<le> 0 then 0 else 1 / v) vs \<and>
   applyPowerTransformation vs (-0.5) = map (\<lambda>v. if v \<le> 0 then 0 else 1 / sqrt v) vs \<and>
   applyPowerTransformation vs 0 = map (\<lambda>v. if v \<le> 0 then 0 else ln v) vs \<and>
   applyPowerTransformation vs 0.5 = map (\<lambda>v. if v < 0 then 0 else sqrt v) vs \<and>
   applyPowerTransformation vs 1 = vs \<and>
   applyPowerTransformation vs 2 = map (\<lambda>v. v * v) vs \<and>
   applyPowerTransformation vs 3 = map (\<lambda>v. v * v * v) vs"
proof -
  have "lam \<notin> set commonLambdas \<Longrightarrow>
      applyPowerTransformation vs lam =
        map (\<lambda>v. if v \<le> 0 then 0 else if \<bar>lam\<bar> < 1 / 10 ^ 10 then ln v else (v powr lam - 1) / lam) vs"
    using find_pt[of lam] by (simp add: applyPowerTransformation_def)
  moreover have "applyPowerTransformation vs (-2) = map (\<lambda>v. if v \<le> 0 then 0 else 1 / (v * v)) vs"
    by (simp add: applyPowerTransformation_def powerTransformations_def)
  moreover have "applyPowerTransformation vs (-1) = map (\<lambda>v. if v \<le> 0 then 0 else 1 / v) vs"
    by (simp add: applyPowerTransformation_def powerTransformations_def)
  moreover have "applyPowerTransformation vs (-0.5) = map (\<lambda>v. if v \<le> 0 then 0 else 1 / sqrt v) vs"
    by (simp add: applyPowerTransformation_def powerTransformations_def)
  moreover have "applyPowerTransformation vs 0 = map (\<lambda>v. if v \<le> 0 then 0 else ln v) vs"
    by (simp add: applyPowerTransformation_def powerTransformations_def)
  moreover have "applyPowerTransformation vs 0.5 = map (\<lambda>v. if v < 0 then 0 else sqrt v) vs"
    by (simp add: applyPowerTransformation_def powerTransformations_def)
  moreover have "applyPowerTransformation vs 1 = vs"
    by (simp add: applyPowerTransformation_def powerTransformations_def)
  moreover have "applyPowerTransformation vs 2 = map (\<lambda>v. v * v) vs"
    by (simp add: applyPowerTransformation_def powerTransformations_def)
  moreover have "applyPowerTransformation vs 3 = map (\<lambda>v. v * v * v) vs"
    by (simp add: applyPowerTransformation_def powerTransformations_def)
  ultimately show ?thesis by blast
qed

theorem applyPowerTransformation_cases_witness:
  "(3/2::real) \<notin> set commonLambdas \<and>
   applyPowerTransformation [-3, 1] (3/2) = [0, 0] \<and>
   applyPowerTransformation [-3, 1] 1 = [-3, 1]"
  using applyPowerTransformation_cases [of "3/2" "[-3, 1]"]
  by (simp add: commonLambdas_def)

text \<open>
  The claim as stated fails on tabulated lambdas: with lambda = 1 the non-positive
  value -3 is returned unchanged, not 0, and with lambda = 2 the positive value 2 is
  mapped to 4, not to (2^2 - 1) / 2 = 1.5.
\<close>

theorem applyPowerTransformation_counterexample:
  "applyPowerTransformation [-3] 1 = [-3] \<and> (-3::real) \<le> 0 \<and>
   applyPowerTransformation [2] 2 = [4] \<and> ((2::real) powr 2 - 1) / 2 = 3/2"
  by (simp add: applyPowerTransformation_def powerTransformations_def)

section \<open>Weight sensitivity: the new weights\<close>

lemma update_fresh: "k \<notin> fst ` set m \<Longrightarrow> AList.update k v m = m @ [(k, v)]"
  by (induction m) auto

lemma fold_update_fresh:
  "distinct (map k xs) \<Longrightarrow> k ` set xs \<inter> fst ` set m = {} \<Longrightarrow>
   fold (\<lambda>c. AList.update (k c) (v c)) xs m = m @ map (\<lambda>c. (k c, v c)) xs"
proof (induction xs arbitrary: m)
  case Nil
  then show ?case by simp
next
  case (Cons a xs)
  have fresh: "k a \<notin> fst ` set m" using Cons.prems by auto
  have "k ` set xs \<inter> fst ` set (m @ [(k a, v a)]) = {}" using Cons.prems by auto
  then show ?case using Cons fresh by (simp add: update_fresh)
qed

lemma fold_update_keys:
  "k ` set xs \<subseteq> fst ` set m \<Longrightarrow> map fst (fold (\<lambda>c. AList.update (k c) (g c)) xs m) = map fst m"
proof (induction xs arbitrary: m)
  case Nil
  then show ?case by simp
next
  case (Cons a xs)
  have a: "map fst (AList.update (k a) (g a) m) = map fst m"
    using Cons.prems by (simp add: update_keys)
  then have "k ` set xs \<subseteq> fst ` set (AList.update (k a) (g a) m)"
    using Cons.prems by (metis (no_types, lifting) insert_subset list.set_map list.simps(15) image_insert)
  from Cons.IH[OF this] a show ?case by simp
qed

lemma fold_update_other:
  "x \<notin> k ` set xs \<Longrightarrow> map_of (fold (\<lambda>c. AList.update (k c) (g c)) xs m) x = map_of m x"
  by (induction xs arbitrary: m) (auto simp: update_conv')

lemma fold_update_hit:
  "distinct (map k xs) \<Longrightarrow> c \<in> set xs \<Longrightarrow>
   map_of (fold (\<lambda>c. AList.update (k c) (g c)) xs m) (k c) = Some (g c)"
proof (induction xs arbitrary: m)
  case Nil
  then show ?case by simp
next
  case (Cons a xs)
  show ?case
  proof (cases "c = a")
    case True
    have "k a \<notin> k ` set xs" using Cons.prems by auto
    then show ?thesis using True by (simp add: fold_update_other update_conv')
  next
    case False
    then show ?thesis using Cons by auto
  qed
qed

lemma sum_snd_keys:
  "distinct (map fst m) \<Longrightarrow> sum_list (map snd m) = (\<Sum>k\<leftarrow>map fst m. the (map_of m k))"
proof (induction m)
  case Nil
  then show ?case by simp
next
  case (Cons p m)
  have "(\<Sum>k\<leftarrow>map fst m. the (map_of (p # m) k)) = (\<Sum>k\<leftarrow>map fst m. the (map_of m k))"
    using Cons.prems by (intro arg_cong[where f=sum_list] map_cong) (auto simp: rev_image_eqI)
  then show ?case using Cons by (cases p) simp
qed

lemma sum_split_target:
  "distinct (map k xs) \<Longrightarrow> t \<in> k ` set xs \<Longrightarrow>
   (\<Sum>c\<leftarrow>xs. if k c = t then b else g c) = b + (\<Sum>c\<leftarrow>filter (\<lambda>c. k c \<noteq> t) xs. (g c :: real))"
proof (induction xs)
  case Nil
  then show ?case by simp
next
  case (Cons a xs)
  show ?case
  proof (cases "k a = t")
    case True
    then have "t \<notin> k ` set xs" using Cons.prems by auto
    then have "filter (\<lambda>c. k c \<noteq> t) xs = xs" "(\<Sum>c\<leftarrow>xs. if k c = t then b else g c) = (\<Sum>c\<leftarrow>xs. g c)"
      by (auto intro!: arg_cong[where f=sum_list] map_cong filter_True)
    then show ?thesis using True by simp
  next
    case False
    then show ?thesis using Cons by auto
  qed
qed

lemma foldl_plus_sum: "foldl (\<lambda>s c. s + f c) (a::real) xs = a + sum_list (map f xs)"
  by (induction xs arbitrary: a) auto

lemma sum_ratio:
  fixes tot :: real
  assumes "xs \<noteq> []" and tot: "tot = sum_list (map w xs)"
  shows "(\<Sum>c\<leftarrow>xs. r * (if tot > 0 then w c / tot else 1 / real (length xs))) = r"
proof (cases "tot > 0")
  case True
  have "(\<Sum>c\<leftarrow>xs. r * (w c / tot)) = r * (sum_list (map w xs) / tot)"
    by (induction xs) (auto simp: algebra_simps add_divide_distrib)
  then show ?thesis using True tot by simp
next
  case False
  have "(\<Sum>c\<leftarrow>xs. r * (1 / real (length xs))) = real (length xs) * (r * (1 / real (length xs)))"
    by (simp add: sum_list_triv)
  then show ?thesis using False assms(1) by simp
qed


lemma others_nonempty:
  assumes "distinct (map k xs)" "2 \<le> length xs"
  shows "filter (\<lambda>c. k c \<noteq> t) xs \<noteq> []"
proof -
  obtain a b ys where xs: "xs = a # b # ys"
    using assms(2) by (cases xs; cases "tl xs") auto
  then have "k a \<noteq> k b" using assms(1) by auto
  then have "k a \<noteq> t \<or> k b \<noteq> t" by auto
  then show ?thesis unfolding xs by auto
qed

lemma runSensitivityAnalysis_result:
  assumes tne: "sa_targetCategory st \<noteq> []"
    and dist: "distinct (map cw_category (filter cw_selected (sa_categories st)))"
    and len: "2 \<le> length (filter cw_selected (sa_categories st))"
    and c: "c \<in> set (filter cw_selected (sa_categories st))" "cw_category c = sa_targetCategory st"
  shows "\<exists>wm. sa_newWeights (runSensitivityAnalysis st) = Some wm \<and>
           sa_error (runSensitivityAnalysis st) = None \<and>
           map fst wm = map cw_category (filter cw_selected (sa_categories st)) \<and>
           map_of wm (sa_targetCategory st) = Some (bestWeight (sa_optimizationGoal st) (cw_weight c)) \<and>
           sum_list (map snd wm) = 1"
proof -
  define sel where "sel = filter cw_selected (sa_categories st)"
  define t where "t = sa_targetCategory st"
  define ow where "ow = fold (\<lambda>cat m. AList.update (cw_category cat) (cw_weight cat) m) sel []"
  define others where "others = filter (\<lambda>c. cw_category c \<noteq> t) sel"
  define tot where "tot = foldl (\<lambda>sum c. sum + the (map_of ow (cw_category c))) 0 others"
  define best where "best = bestWeight (sa_optimizationGoal st) (weightOr0 ow t)"
  define g :: "CategoryWeight \<Rightarrow> real" where "g = (\<lambda>cat. (1 - best) * (if tot > 0 then the (map_of ow (cw_category cat)) / tot
                                         else 1 / real (length others)))"
  define wm where "wm = fold (\<lambda>cat m. AList.update (cw_category cat) (g cat) m) others
                          (AList.update t best ow)"
  have dist': "distinct (map cw_category sel)" and len': "2 \<le> length sel"
    and c': "c \<in> set sel" "cw_category c = t"
    using dist len c by (simp_all add: sel_def t_def)
  have res: "sa_newWeights (runSensitivityAnalysis st) = Some wm"
    "sa_error (runSensitivityAnalysis st) = None"
    unfolding runSensitivityAnalysis_def Let_def wm_def g_def best_def tot_def others_def
        ow_def t_def sel_def
    using tne len by simp_all
  have ow: "ow = map (\<lambda>c. (cw_category c, cw_weight c)) sel"
    unfolding ow_def using fold_update_fresh[OF dist', of "[]" cw_weight] by simp
  have ow_get: "map_of ow (cw_category d) = Some (cw_weight d)" if "d \<in> set sel" for d
    unfolding ow using dist' that
    by (induction sel) (auto simp: rev_image_eqI)
  have tw: "weightOr0 ow t = cw_weight c"
    using ow_get[OF c'(1)] c'(2) by (simp add: weightOr0_def)
  have keys_ow: "map fst ow = map cw_category sel" unfolding ow by (simp add: comp_def)
  have tin: "t \<in> cw_category ` set sel" using c' by auto
  have keys1: "map fst (AList.update t best ow) = map cw_category sel"
    using tin by (simp add: update_keys keys_ow)
  have sub: "cw_category ` set others \<subseteq> fst ` set (AList.update t best ow)"
  proof -
    have "cw_category ` set others \<subseteq> cw_category ` set sel" by (auto simp: others_def)
    also have "\<dots> = set (map fst (AList.update t best ow))" unfolding keys1 by simp
    finally show ?thesis by simp
  qed
  have keys: "map fst wm = map cw_category sel"
    unfolding wm_def using fold_update_keys[OF sub] keys1 by simp
  have dist_o: "distinct (map cw_category others)"
    unfolding others_def using dist' by (simp add: distinct_map_filter)
  have tnot: "t \<notin> cw_category ` set others" by (auto simp: others_def)
  have get_t: "map_of wm t = Some best"
    unfolding wm_def by (simp add: fold_update_other[OF tnot] update_conv')
  have get_o: "map_of wm (cw_category d) = Some (g d)" if "d \<in> set others" for d
    unfolding wm_def by (rule fold_update_hit[OF dist_o that])
  have val: "the (map_of wm (cw_category d)) = (if cw_category d = t then best else g d)"
    if "d \<in> set sel" for d
  proof (cases "cw_category d = t")
    case True then show ?thesis using get_t by simp
  next
    case False
    then have "d \<in> set others" using that by (simp add: others_def)
    then show ?thesis using get_o False by simp
  qed
  have distwm: "distinct (map fst wm)" using keys dist' by simp
  have "sum_list (map snd wm) = (\<Sum>k\<leftarrow>map fst wm. the (map_of wm k))"
    by (rule sum_snd_keys[OF distwm])
  also have "\<dots> = (\<Sum>d\<leftarrow>sel. the (map_of wm (cw_category d)))"
    unfolding keys by (simp add: comp_def)
  also have "\<dots> = (\<Sum>d\<leftarrow>sel. if cw_category d = t then best else g d)"
    using val by (intro arg_cong[where f=sum_list] map_cong) auto
  also have "\<dots> = best + (\<Sum>d\<leftarrow>others. g d)"
    unfolding others_def using c' by (intro sum_split_target[OF dist']) auto
  also have "(\<Sum>d\<leftarrow>others. g d) = 1 - best"
  proof -
    have ne: "others \<noteq> []" unfolding others_def by (rule others_nonempty[OF dist' len'])
    have tot': "tot = sum_list (map cw_weight others)"
    proof -
      have "map (\<lambda>c. the (map_of ow (cw_category c))) others = map cw_weight others"
        using ow_get by (intro map_cong) (auto simp: others_def)
      then have "sum_list (map (\<lambda>c. the (map_of ow (cw_category c))) others) = sum_list (map cw_weight others)"
        by (rule arg_cong)
      then show ?thesis unfolding tot_def foldl_plus_sum by simp
    qed
    have "(\<Sum>d\<leftarrow>others. g d) =
          (\<Sum>d\<leftarrow>others. (1 - best) * (if tot > 0 then cw_weight d / tot else 1 / real (length others)))"
      unfolding g_def using ow_get
      by (intro arg_cong[where f=sum_list] map_cong) (auto simp: others_def)
    also have "\<dots> = 1 - best" by (rule sum_ratio[OF ne tot'])
    finally show ?thesis .
  qed
  finally have sum1: "sum_list (map snd wm) = 1" by simp
  show ?thesis
    using res keys get_t sum1 tw unfolding best_def sel_def t_def by auto
qed

text \<open>
  Claim C1, as amended. With at least two selected categories of distinct names and a
  target among them, runSensitivityAnalysis reports no error and produces new weights
  in which the target has min(0.9, 2 * current) when maximizing and
  max(0.1, current / 2) when minimizing, and the new weights sum to 1 (so also within
  1e-6 of 1). The target's new weight is at most 0.9 when maximizing and at least 0.1
  when minimizing; when maximizing it reaches 0.1 exactly when the current weight is at
  least 0.05, and when minimizing it stays at most 0.9 exactly when the current weight
  is at most 1.8. The sum of the current weights plays no part.
\<close>

theorem runSensitivityAnalysis_new_weights:
  assumes "sa_targetCategory st \<noteq> []"
    and "distinct (map cw_category (filter cw_selected (sa_categories st)))"
    and "2 \<le> length (filter cw_selected (sa_categories st))"
    and "c \<in> set (filter cw_selected (sa_categories st))"
    and "cw_category c = sa_targetCategory st"
  shows "\<exists>wm. sa_newWeights (runSensitivityAnalysis st) = Some wm \<and>
           sa_error (runSensitivityAnalysis st) = None \<and>
           map fst wm = map cw_category (filter cw_selected (sa_categories st)) \<and>
           map_of wm (sa_targetCategory st) =
             Some (case sa_optimizationGoal st of
                     Maximize \<Rightarrow> min (9 / 10) (cw_weight c * 2)
                   | Minimize \<Rightarrow> max (1 / 10) (cw_weight c / 2)) \<and>
           sum_list (map snd wm) = 1 \<and>
           \<bar>sum_list (map snd wm) - 1\<bar> \<le> 1 / 10 ^ 6 \<and>
           (sa_optimizationGoal st = Maximize \<longrightarrow>
              weightOr0 wm (sa_targetCategory st) \<le> 9 / 10 \<and>
              (1 / 10 \<le> weightOr0 wm (sa_targetCategory st) \<longleftrightarrow> 1 / 20 \<le> cw_weight c)) \<and>
           (sa_optimizationGoal st = Minimize \<longrightarrow>
              1 / 10 \<le> weightOr0 wm (sa_targetCategory st) \<and>
              (weightOr0 wm (sa_targetCategory st) \<le> 9 / 10 \<longleftrightarrow> cw_weight c \<le> 9 / 5))"
proof -
  obtain wm where wm: "sa_newWeights (runSensitivityAnalysis st) = Some wm"
    "sa_error (runSensitivityAnalysis st) = None"
    "map fst wm = map cw_category (filter cw_selected (sa_categories st))"
    "map_of wm (sa_targetCategory st) = Some (bestWeight (sa_optimizationGoal st) (cw_weight c))"
    "sum_list (map snd wm) = 1"
    using runSensitivityAnalysis_result[OF assms] by blast
  have w: "weightOr0 wm (sa_targetCategory st) = bestWeight (sa_optimizationGoal st) (cw_weight c)"
    using wm(4) by (simp add: weightOr0_def)
  have mx: "sa_optimizationGoal st = Maximize \<Longrightarrow>
      weightOr0 wm (sa_targetCategory st) \<le> 9 / 10 \<and>
      (1 / 10 \<le> weightOr0 wm (sa_targetCategory st) \<longleftrightarrow> 1 / 20 \<le> cw_weight c)"
    unfolding w by (auto simp: bestWeight_def)
  have mn: "sa_optimizationGoal st = Minimize \<Longrightarrow>
      1 / 10 \<le> weightOr0 wm (sa_targetCategory st) \<and>
      (weightOr0 wm (sa_targetCategory st) \<le> 9 / 10 \<longleftrightarrow> cw_weight c \<le> 9 / 5)"
    unfolding w by (auto simp: bestWeight_def)
  have tg: "map_of wm (sa_targetCategory st) =
             Some (case sa_optimizationGoal st of
                     Maximize \<Rightarrow> min (9 / 10) (cw_weight c * 2)
                   | Minimize \<Rightarrow> max (1 / 10) (cw_weight c / 2))"
    using wm(4) by (simp add: bestWeight_def)
  show ?thesis
    using wm(1,2,3,5) tg mx mn by (intro exI[of _ wm]) simp
qed

theorem runSensitivityAnalysis_new_weights_witness:
  "sa_targetCategory (sensitivity_example (3/10) (7/10) Maximize) \<noteq> [] \<and>
   distinct (map cw_category (filter cw_selected (sa_categories (sensitivity_example (3/10) (7/10) Maximize)))) \<and>
   2 \<le> length (filter cw_selected (sa_categories (sensitivity_example (3/10) (7/10) Maximize))) \<and>
   \<lparr>cw_category = ''A'', cw_weight = 3/10, cw_selected = True\<rparr>
      \<in> set (filter cw_selected (sa_categories (sensitivity_example (3/10) (7/10) Maximize))) \<and>
   sa_newWeights (runSensitivityAnalysis (sensitivity_example (3/10) (7/10) Maximize))
      = Some [(''A'', 3/5), (''B'', 2/5)] \<and>
   sa_error (runSensitivityAnalysis (sensitivity_example (3/10) (7/10) Maximize)) = None"
proof -
  have h: "sa_targetCategory (sensitivity_example (3/10) (7/10) Maximize) \<noteq> []"
    "distinct (map cw_category (filter cw_selected (sa_categories (sensitivity_example (3/10) (7/10) Maximize))))"
    "2 \<le> length (filter cw_selected (sa_categories (sensitivity_example (3/10) (7/10) Maximize)))"
    "\<lparr>cw_category = ''A'', cw_weight = 3/10, cw_selected = True\<rparr>
      \<in> set (filter cw_selected (sa_categories (sensitivity_example (3/10) (7/10) Maximize)))"
    "cw_category \<lparr>cw_category = ''A'', cw_weight = 3/10, cw_selected = True\<rparr>
      = sa_targetCategory (sensitivity_example (3/10) (7/10) Maximize)"
    by (simp_all add: sensitivity_example_def)
  have e: "sa_newWeights (runSensitivityAnalysis (sensitivity_example (3/10) (7/10) Maximize))
      = Some [(''A'', 3/5), (''B'', 2/5)]"
    by code_simp
  from runSensitivityAnalysis_new_weights [OF h] e h show ?thesis by auto
qed

text \<open>
  The claim as stated fails when maximizing a small weight: with current weights 0.02
  and 0.98 (sum 1) and target A, the new target weight is 0.04, below 0.1.
\<close>

theorem runSensitivityAnalysis_range_counterexample:
  "sum_list (map cw_weight (filter cw_selected (sa_categories (sensitivity_example (2/100) (98/100) Maximize)))) = 1 \<and>
   sa_newWeights (runSensitivityAnalysis (sensitivity_example (2/100) (98/100) Maximize))
      = Some [(''A'', 1/25), (''B'', 24/25)] \<and>
   (1/25 :: real) < 1/10"
  by code_simp

section \<open>Ranking: scores keyed by the alternative's identifier\<close>

lemma lookupOr_update:
  "lookupOr d (AList.update k v m) k' = (if k' = k then v else lookupOr d m k')"
  by (simp add: lookupOr_def update_conv')

lemma setScore_lookup:
  "map_of (lookupOr [] (setScore s c v scs) s') c' =
     (if s' = s \<and> c' = c then Some v else map_of (lookupOr [] scs s') c')"
  by (simp add: setScore_def lookupOr_update update_conv')

lemma inner_other_criterion:
  "c' \<noteq> c \<Longrightarrow>
   map_of (lookupOr [] (fold (\<lambda>i. setScore (sups ! i) c (f i)) is scs) s) c' =
   map_of (lookupOr [] scs s) c'"
  by (induction "is" arbitrary: scs) (simp_all add: setScore_lookup)

lemma inner_other_supplier:
  "\<forall>i \<in> set is. sups ! i \<noteq> s \<Longrightarrow>
   map_of (lookupOr [] (fold (\<lambda>i. setScore (sups ! i) c (f i)) is scs) s) c' =
   map_of (lookupOr [] scs s) c'"
  by (induction "is" arbitrary: scs) (auto simp add: setScore_lookup)

lemma inner_last_row:
  assumes "i < n" "sups ! i = s" "\<forall>j. i < j \<and> j < n \<longrightarrow> sups ! j \<noteq> s"
  shows "map_of (lookupOr [] (fold (\<lambda>i. setScore (sups ! i) c (f i)) [0..<n] scs) s) c = Some (f i)"
proof -
  have split: "[0..<n] = [0..<i] @ i # [Suc i..<n]"
    using assms(1) by (metis le0 upt_add_eq_append upt_conv_Cons le_add_diff_inverse less_imp_le_nat)
  have later: "\<forall>j \<in> set [Suc i..<n]. sups ! j \<noteq> s" using assms(3) by auto
  show ?thesis
    unfolding split using assms(2)
    by (simp add: inner_other_supplier[OF later] setScore_lookup)
qed

lemma outer_last_row:
  assumes "i < n" "sups ! i = s" "\<forall>j. i < j \<and> j < n \<longrightarrow> sups ! j \<noteq> s" "c \<in> set cs"
  shows "map_of (lookupOr []
           (fold (\<lambda>criterion. fold (\<lambda>i. setScore (sups ! i) criterion (g criterion i)) [0..<n]) cs scs) s) c
         = Some (g c i)"
  using assms(4)
proof (induction cs rule: rev_induct)
  case Nil
  then show ?case by simp
next
  case (snoc x xs)
  show ?case
  proof (cases "x = c")
    case True
    then show ?thesis using inner_last_row[OF assms(1-3), of c "g c"] by simp
  next
    case False
    then have "c \<in> set xs" using snoc.prems by auto
    then show ?thesis using snoc.IH False by (simp add: inner_other_criterion)
  qed
qed

lemma scoreAllCriteria_last_row:
  assumes "i < length sups" "sups ! i = s" "\<forall>j. i < j \<and> j < length sups \<longrightarrow> sups ! j \<noteq> s" "c \<in> set cs"
  shows "map_of (lookupOr [] (scoreAllCriteria method sups cd cs) s) c
         = Some (criterionScore method (lookupOr [] cd c) i)"
  unfolding scoreAllCriteria_def Let_def
  by (rule outer_last_row[OF assms, of "\<lambda>criterion. criterionScore method (lookupOr [] cd criterion)"])

lemma mset_insert_sorted: "mset (insert_sorted p x xs) = add_mset x (mset xs)"
  by (induction xs) auto

lemma mset_stable_sort: "mset (stable_sort p xs) = mset xs"
  unfolding stable_sort_def by (induction xs) (auto simp: mset_insert_sorted)

lemma set_stable_sort: "set (stable_sort p xs) = set xs"
  using mset_stable_sort[of p xs] by (metis set_mset_mset)

lemma map_enumerate_snd: "map (\<lambda>p. f (snd p)) (enumerate n xs) = map f xs"
proof -
  have "map (\<lambda>p. f (snd p)) (enumerate n xs) = map f (map snd (enumerate n xs))"
    unfolding map_map comp_def ..
  then show ?thesis by (simp only: map_snd_enumerate)
qed


lemma performRanking_rows:
  assumes ok: "performRanking method ts st = Inr (res, ranks)"
    and ed: "am_excelData st = Some ed"
    and k: "indexOf (ed_headers ed) (am_evaluationColumn st) = Some k"
    and cd: "extractCriteria ed (am_selectedVariables st) [] = Inr cd"
  shows "ar_suppliers res = map (\<lambda>row. cellText ts (cellAt row k)) (ed_data ed)"
    and "mset (map rs_supplier (ar_rankedSuppliers res)) = mset (ar_suppliers res)"
    and "\<And>r. r \<in> set (ar_rankedSuppliers res) \<Longrightarrow>
           rs_criteriaScores r =
             lookupOr [] (scoreAllCriteria method (ar_suppliers res) cd (am_selectedVariables st))
               (rs_supplier r)"
proof -
  define sups where "sups = map (\<lambda>row. cellText ts (cellAt row k)) (ed_data ed)"
  define scs where "scs = scoreAllCriteria method sups cd (am_selectedVariables st)"
  define nw where "nw = getNormalizedWeights (am_criteriaWeights st)"
  define oranks where "oranks = calculateOriginalRankings sups cd nw"
  define mk :: "string \<Rightarrow> RankedSupplier" where "mk = (\<lambda>supplier.
       \<lparr>rs_supplier = supplier,
        rs_score = foldl (\<lambda>overallScore criterion.
                     n_add overallScore
                       (n_mul (lookupOr NaN (lookupOr [] scs supplier) criterion)
                          (weightNumber nw criterion)))
                   (Val 0) (am_selectedVariables st),
        rs_distance = (case method of
                         Topsis \<Rightarrow> None
                       | Euclidean \<Rightarrow>
                           Some (foldl (\<lambda>totalWeightedDistance criterion.
                                   n_add totalWeightedDistance
                                     (n_mul (n_sub (Val 1)
                                               (lookupOr NaN (lookupOr [] scs supplier) criterion))
                                        (weightNumber nw criterion)))
                                 (Val 0) (am_selectedVariables st))),
        rs_criteriaScores = lookupOr [] scs supplier,
        rs_originalRank = 0,
        rs_rankChange = 0\<rparr>)"
  define sorted where "sorted = stable_sort (\<lambda>a b. n_gt (rs_score a) (rs_score b)) (map mk sups)"
  define upd :: "nat \<times> RankedSupplier \<Rightarrow> RankedSupplier" where "upd = (\<lambda>(index, supplier).
       supplier\<lparr>rs_originalRank := lookupOr 0 oranks (rs_supplier supplier),
                 rs_rankChange := int (lookupOr 0 oranks (rs_supplier supplier)) - int (index + 1)\<rparr>)"
  have cond: "(am_evaluationColumn st = [] \<or> length (am_selectedVariables st) = 0) = False"
    using ok by (auto simp: performRanking_def ed split: if_splits)
  have "performRanking method ts st =
          Inr (\<lparr>ar_method = method, ar_suppliers = sups, ar_criteria = am_selectedVariables st,
                 ar_rankedSuppliers = map upd (enumerate 0 sorted),
                 ar_evaluationColumn = am_evaluationColumn st, ar_weights = nw\<rparr>, oranks)"
    unfolding performRanking_def ed option.case cond if_False k cd sum.case Let_def
      sups_def scs_def nw_def oranks_def mk_def sorted_def upd_def
    by (rule refl)
  with ok have res: "res = \<lparr>ar_method = method, ar_suppliers = sups,
                     ar_criteria = am_selectedVariables st,
                     ar_rankedSuppliers = map upd (enumerate 0 sorted),
                     ar_evaluationColumn = am_evaluationColumn st, ar_weights = nw\<rparr>"
    by simp
  show "ar_suppliers res = map (\<lambda>row. cellText ts (cellAt row k)) (ed_data ed)"
    by (simp add: res sups_def)
  have sup_upd: "rs_supplier (upd p) = rs_supplier (snd p)" for p
    by (cases p) (simp add: upd_def)
  have cs_upd: "rs_criteriaScores (upd p) = rs_criteriaScores (snd p)" for p
    by (cases p) (simp add: upd_def)
  have "map rs_supplier (map upd (enumerate 0 sorted)) = map (\<lambda>p. rs_supplier (snd p)) (enumerate 0 sorted)"
    by (simp add: sup_upd)
  also have "\<dots> = map rs_supplier sorted" by (rule map_enumerate_snd)
  finally have names: "map rs_supplier (ar_rankedSuppliers res) = map rs_supplier sorted"
    by (simp add: res)
  have "mset sorted = mset (map mk sups)"
    unfolding sorted_def by (rule mset_stable_sort)
  then have "mset (map rs_supplier sorted) = mset (map rs_supplier (map mk sups))"
    by (metis mset_map)
  also have "map rs_supplier (map mk sups) = sups"
    by (simp add: mk_def comp_def)
  finally have fin: "mset (map rs_supplier sorted) = mset sups" .
  have sup_res: "ar_suppliers res = sups" by (simp add: res)
  show "mset (map rs_supplier (ar_rankedSuppliers res)) = mset (ar_suppliers res)"
    unfolding names sup_res by (rule fin)
  show "rs_criteriaScores r =
          lookupOr [] (scoreAllCriteria method (ar_suppliers res) cd (am_selectedVariables st))
            (rs_supplier r)"
    if "r \<in> set (ar_rankedSuppliers res)" for r
  proof -
    have "r \<in> upd ` set (enumerate 0 sorted)" using that by (simp add: res)
    then obtain p where p: "p \<in> set (enumerate 0 sorted)" "r = upd p" by blast
    have "snd p \<in> set (map snd (enumerate 0 sorted))" using p(1) by (simp only: set_map) (rule imageI)
    then have "snd p \<in> set sorted" by (simp only: map_snd_enumerate)
    then have "snd p \<in> set (map mk sups)" by (simp add: sorted_def set_stable_sort)
    then obtain s where s: "snd p = mk s" by auto
    show ?thesis
      unfolding p(2) sup_upd cs_upd s by (simp add: mk_def res scs_def)
  qed
qed

text \<open>
  Claim C10. In both ranking variants the per-criterion scores are kept in a map keyed
  by the identifier text of the row (the empty text for a row whose identifier cell is
  absent). Every row of the sheet appears in the result, also the rows without an
  identifier; result rows with the same identifier carry the same per-criterion scores;
  and for every selected criterion that score is the one computed for the last row of
  the sheet with that identifier.
\<close>

theorem ranking_scores_keyed_by_identifier:
  assumes "(case method of Topsis \<Rightarrow> performTOPSIS ts st
                         | Euclidean \<Rightarrow> performEuclideanDistance ts st) = Inr (res, ranks)"
    and "am_excelData st = Some ed"
    and "indexOf (ed_headers ed) (am_evaluationColumn st) = Some k"
    and "extractCriteria ed (am_selectedVariables st) [] = Inr cd"
  shows "cellText ts Empty = [] \<and>
         ar_suppliers res = map (\<lambda>row. cellText ts (cellAt row k)) (ed_data ed) \<and>
         mset (map rs_supplier (ar_rankedSuppliers res)) = mset (ar_suppliers res) \<and>
         (\<forall>r \<in> set (ar_rankedSuppliers res). \<forall>r' \<in> set (ar_rankedSuppliers res).
            rs_supplier r = rs_supplier r' \<longrightarrow> rs_criteriaScores r = rs_criteriaScores r') \<and>
         (\<forall>r \<in> set (ar_rankedSuppliers res). \<forall>c \<in> set (am_selectedVariables st). \<forall>i.
            i < length (ar_suppliers res) \<and> ar_suppliers res ! i = rs_supplier r \<and>
            (\<forall>j. i < j \<and> j < length (ar_suppliers res) \<longrightarrow> ar_suppliers res ! j \<noteq> rs_supplier r)
            \<longrightarrow> map_of (rs_criteriaScores r) c = Some (criterionScore method (lookupOr [] cd c) i))"
proof -
  have ok: "performRanking method ts st = Inr (res, ranks)"
    using assms(1) by (cases "method") (simp_all add: performTOPSIS_def performEuclideanDistance_def)
  note rows = performRanking_rows[OF ok assms(2) assms(3) assms(4)]
  have same: "rs_criteriaScores r = rs_criteriaScores r'"
    if "r \<in> set (ar_rankedSuppliers res)" "r' \<in> set (ar_rankedSuppliers res)"
       "rs_supplier r = rs_supplier r'" for r r'
    using rows(3)[OF that(1)] rows(3)[OF that(2)] that(3) by simp
  have last: "map_of (rs_criteriaScores r) c = Some (criterionScore method (lookupOr [] cd c) i)"
    if "r \<in> set (ar_rankedSuppliers res)" "c \<in> set (am_selectedVariables st)"
       "i < length (ar_suppliers res)" "ar_suppliers res ! i = rs_supplier r"
       "\<forall>j. i < j \<and> j < length (ar_suppliers res) \<longrightarrow> ar_suppliers res ! j \<noteq> rs_supplier r"
    for r c i
    unfolding rows(3)[OF that(1)]
    by (rule scoreAllCriteria_last_row[OF that(3) that(4) that(5) that(2)])
  have empty: "cellText ts Empty = []" by (simp add: cellText_def)
  show ?thesis
    using empty rows(1) rows(2) same last by blast
qed

theorem ranking_scores_keyed_by_identifier_witness:
  "performEuclideanDistance no_numbers (ranking_example duplicate_rows Euclidean 1)
     = Inr (projr (performEuclideanDistance no_numbers (ranking_example duplicate_rows Euclidean 1))) \<and>
   ar_suppliers (fst (projr (performEuclideanDistance no_numbers (ranking_example duplicate_rows Euclidean 1))))
     = [''A'', ''B'', ''A'', [], []] \<and>
   map (\<lambda>r. (rs_supplier r, rs_criteriaScores r))
     (ar_rankedSuppliers (fst (projr (performEuclideanDistance no_numbers (ranking_example duplicate_rows Euclidean 1)))))
     = [(''B'', [(''Score'', Val (4/9))]), ([], [(''Score'', Val (1/9))]), ([], [(''Score'', Val (1/9))]),
        (''A'', [(''Score'', Val 0)]), (''A'', [(''Score'', Val 0)])] \<and>
   criterionScore Euclidean [10, 5, 1, 7, 2] 2 = Val 0 \<and>
   criterionScore Euclidean [10, 5, 1, 7, 2] 4 = Val (1/9) \<and>
   mset (map rs_supplier
     (ar_rankedSuppliers (fst (projr (performEuclideanDistance no_numbers (ranking_example duplicate_rows Euclidean 1))))))
     = mset [''A'', ''B'', ''A'', [], []]"
proof -
  let ?st = "ranking_example duplicate_rows Euclidean 1"
  let ?ed = "\<lparr>ed_headers = [''Name'', ''Score''], ed_data = duplicate_rows,
              ed_sheetNames = [''Sheet1''], ed_activeSheet = ''Sheet1''\<rparr>"
  let ?out = "performEuclideanDistance no_numbers ?st"
  have isr: "\<not> isl ?out" by code_simp
  then have h1: "(case Euclidean of Topsis \<Rightarrow> performTOPSIS no_numbers ?st
                   | Euclidean \<Rightarrow> performEuclideanDistance no_numbers ?st)
                 = Inr (fst (projr ?out), snd (projr ?out))"
    by (cases ?out) simp_all
  have h2: "am_excelData ?st = Some ?ed" by (simp add: ranking_example_def)
  have h3: "indexOf (ed_headers ?ed) (am_evaluationColumn ?st) = Some 0"
    by (simp add: ranking_example_def)
  have h4: "extractCriteria ?ed (am_selectedVariables ?st) [] = Inr [(''Score'', [10, 5, 1, 7, 2])]"
    by code_simp
  note t = ranking_scores_keyed_by_identifier[OF h1 h2 h3 h4]
  have e1: "ar_suppliers (fst (projr ?out)) = [''A'', ''B'', ''A'', [], []]" by code_simp
  have e2: "map (\<lambda>r. (rs_supplier r, rs_criteriaScores r)) (ar_rankedSuppliers (fst (projr ?out)))
     = [(''B'', [(''Score'', Val (4/9))]), ([], [(''Score'', Val (1/9))]), ([], [(''Score'', Val (1/9))]),
        (''A'', [(''Score'', Val 0)]), (''A'', [(''Score'', Val 0)])]" by code_simp
  have e3: "criterionScore Euclidean [10, 5, 1, 7, 2] 2 = Val 0"
    "criterionScore Euclidean [10, 5, 1, 7, 2] 4 = Val (1/9)" by code_simp+
  have m: "mset (map rs_supplier (ar_rankedSuppliers (fst (projr ?out)))) = mset (ar_suppliers (fst (projr ?out)))"
    using t by blast
  have o: "?out = Inr (projr ?out)" using isr by (cases ?out) simp_all
  show ?thesis using o e1 e2 e3 m[unfolded e1] by blast
qed

section \<open>Ranking: a non-numeric criterion cell\<close>

lemma score_beyond_values:
  "length vals \<le> i \<Longrightarrow> topsisScore vals i = NaN \<and> euclideanScore vals i = NaN"
  by (simp add: topsisScore_def euclideanScore_def nth_number_def Let_def)

lemma foldl_max_constant: "\<forall>v \<in> set xs. v = c \<Longrightarrow> foldl max (c::real) xs = c"
  by (induction xs) auto

lemma foldl_min_constant: "\<forall>v \<in> set xs. v = c \<Longrightarrow> foldl min (c::real) xs = c"
  by (induction xs) auto

lemma euclideanScore_constant_column:
  assumes "\<forall>v \<in> set vals. v = c" "i < length vals"
  shows "euclideanScore vals i = Val (1 / 2)"
proof -
  obtain x xs where v: "vals = x # xs" using assms(2) by (cases vals) auto
  have x: "x = c" and xs: "\<forall>v \<in> set xs. v = c" using assms(1) v by auto
  have "maximum vals = c" "minimum vals = c"
    unfolding v maximum_def minimum_def using x foldl_max_constant[OF xs] foldl_min_constant[OF xs]
    by simp_all
  then show ?thesis
    using assms(2) by (simp add: euclideanScore_def Let_def nth_number_def)
qed

text \<open>
  Claim C5 does not hold of the code. A criterion cell holding a text that is not a
  number is dropped from the criterion's values, and the values are then read by row
  position: the scores shift to the rows above, and the last row reads past the end of
  the values. On the sheet A: n/a, B: 1, C: 3 the values are 1, 3; both variants give
  the third row the per-criterion score NaN, and the Euclidean run scores A from B's
  value, B from C's, and reports NaN for C per criterion and overall.
\<close>

theorem ranking_text_cell_gives_NaN:
  "extractCriteria
     \<lparr>ed_headers = [''Name'', ''Score''], ed_data = text_cell_rows,
      ed_sheetNames = [''Sheet1''], ed_activeSheet = ''Sheet1''\<rparr> [''Score''] []
     = Inr [(''Score'', [1, 3])] \<and>
   topsisScore [1, 3] 2 = NaN \<and>
   euclideanScore [1, 3] 2 = NaN \<and>
   map_option (map (\<lambda>r. (rs_supplier r, rs_score r, rs_criteriaScores r)) \<circ> ar_rankedSuppliers)
     (am_result (handleRun no_numbers (ranking_example text_cell_rows Euclidean 1)))
   = Some [(''B'', Val 1, [(''Score'', Val 1)]),
           (''A'', Val 0, [(''Score'', Val 0)]),
           (''C'', NaN, [(''Score'', NaN)])]"
proof -
  have a: "extractCriteria
     \<lparr>ed_headers = [''Name'', ''Score''], ed_data = text_cell_rows,
      ed_sheetNames = [''Sheet1''], ed_activeSheet = ''Sheet1''\<rparr> [''Score''] []
     = Inr [(''Score'', [1, 3])]"
    by code_simp
  have b: "topsisScore [1, 3] 2 = NaN \<and> euclideanScore [1, 3] 2 = NaN"
    by (rule score_beyond_values) simp
  have c: "map_option (map (\<lambda>r. (rs_supplier r, rs_score r, rs_criteriaScores r)) \<circ> ar_rankedSuppliers)
     (am_result (handleRun no_numbers (ranking_example text_cell_rows Euclidean 1)))
   = Some [(''B'', Val 1, [(''Score'', Val 1)]),
           (''A'', Val 0, [(''Score'', Val 0)]),
           (''C'', NaN, [(''Score'', NaN)])]"
    by code_simp
  show ?thesis using a b c by (intro conjI) simp_all
qed

section \<open>Ranking: the weights at run time\<close>

lemma foldl_weights: "foldl (\<lambda>total cw. total + cr_weight cw) (a::real) xs = a + sum_list (map cr_weight xs)"
  by (induction xs arbitrary: a) auto

lemma sum_positive_part:
  "\<forall>cw \<in> set xs. 0 \<le> cr_weight cw \<Longrightarrow>
   sum_list (map cr_weight (filter (\<lambda>cw. cr_weight cw > 0) xs)) = sum_list (map cr_weight xs)"
  by (induction xs) (auto simp: order.order_iff_strict)

lemma sum_scaled:
  "(\<Sum>x\<leftarrow>xs. f x + r * (f x / t)) = sum_list (map f xs) + r * (sum_list (map f xs) / (t::real))"
  by (induction xs) (auto simp: algebra_simps add_divide_distrib)

lemma distributeRemainingWeight_sum:
  assumes nn: "\<forall>cw \<in> set cws. 0 \<le> cr_weight cw" and nz: "sum_list (map cr_weight cws) \<noteq> 0"
  shows "sum_list (map cr_weight (distributeRemainingWeight cws)) = 1"
proof (cases "sum_list (map cr_weight cws) = 1")
  case True
  then show ?thesis by (auto simp add: distributeRemainingWeight_def Let_def foldl_weights)
next
  case False
  define S where "S = sum_list (map cr_weight cws)"
  have ne: "cws \<noteq> []" using nz by auto
  have pos: "sum_list (map cr_weight (filter (\<lambda>cw. cr_weight cw > 0) cws)) = S"
    unfolding S_def by (rule sum_positive_part[OF nn])
  have fne: "filter (\<lambda>cw. cr_weight cw > 0) cws \<noteq> []"
    using pos nz S_def by auto
  have eq: "distributeRemainingWeight cws =
      map (\<lambda>cw. if cr_weight cw = 0 then cw
                 else cw\<lparr>cr_weight := cr_weight cw + (1 - S) * (cr_weight cw / S)\<rparr>) cws"
    using ne nz False fne pos
    by (simp add: distributeRemainingWeight_def Let_def foldl_weights S_def)
  have "sum_list (map cr_weight (distributeRemainingWeight cws))
        = (\<Sum>cw\<leftarrow>cws. cr_weight cw + (1 - S) * (cr_weight cw / S))"
    unfolding eq map_map by (intro arg_cong[where f=sum_list] map_cong) auto
  also have "\<dots> = S + (1 - S) * (S / S)"
    unfolding S_def by (rule sum_scaled)
  also have "\<dots> = 1" using nz S_def by simp
  finally show ?thesis .
qed

lemma performRanking_weights_irrelevant:
  "isl (performRanking mth ts (st\<lparr>am_criteriaWeights := w\<rparr>)) = isl (performRanking mth ts st) \<and>
   (isl (performRanking mth ts st) \<longrightarrow>
      performRanking mth ts (st\<lparr>am_criteriaWeights := w\<rparr>) = performRanking mth ts st)"
  by (auto simp: performRanking_def Let_def split: option.splits sum.splits)

text \<open>
  Claim C2, as amended. The ranking applies no check to the sum of the weights: whether
  a run ends in an error, and in which, does not depend on the weights, for either
  variant. The run handler itself applies the redistribution to the stored weights,
  without the caller asking for it; for non-negative weights whose sum is not 0 the
  stored weights then sum to 1.
\<close>

theorem handleRun_weights:
  "am_criteriaWeights (handleRun ts st) = distributeRemainingWeight (am_criteriaWeights st) \<and>
   am_error (handleRun ts (st\<lparr>am_criteriaWeights := w\<rparr>)) = am_error (handleRun ts st) \<and>
   isl (performTOPSIS ts (st\<lparr>am_criteriaWeights := w\<rparr>)) = isl (performTOPSIS ts st) \<and>
   isl (performEuclideanDistance ts (st\<lparr>am_criteriaWeights := w\<rparr>))
     = isl (performEuclideanDistance ts st) \<and>
   ((\<forall>cw \<in> set (am_criteriaWeights st). 0 \<le> cr_weight cw) \<and>
    sum_list (map cr_weight (am_criteriaWeights st)) \<noteq> 0 \<longrightarrow>
      sum_list (map cr_weight (am_criteriaWeights (handleRun ts st))) = 1)"
proof -
  have stored: "am_criteriaWeights (handleRun ts st') = distributeRemainingWeight (am_criteriaWeights st')"
    for st'
    by (simp add: handleRun_def Let_def split: sum.splits AnalysisMethod.splits prod.splits)
  have err: "am_error (handleRun ts st') =
      (case performRanking (am_selectedMethod st') ts st' of Inl m \<Rightarrow> Some m | Inr p \<Rightarrow> None)" for st'
    by (cases "am_selectedMethod st'")
       (simp_all add: handleRun_def Let_def performTOPSIS_def performEuclideanDistance_def
          split: sum.splits prod.splits)
  have irr: "(case performRanking m ts (st\<lparr>am_criteriaWeights := w\<rparr>) of Inl m \<Rightarrow> Some m | Inr p \<Rightarrow> None)
           = (case performRanking m ts st of Inl m \<Rightarrow> Some m | Inr p \<Rightarrow> None)" for m
    using performRanking_weights_irrelevant[where mth=m and ts=ts and st=st and w=w]
    by (cases "performRanking m ts st"; cases "performRanking m ts (st\<lparr>am_criteriaWeights := w\<rparr>)") auto
  have e: "am_error (handleRun ts (st\<lparr>am_criteriaWeights := w\<rparr>)) = am_error (handleRun ts st)"
    unfolding err using irr[of "am_selectedMethod st"] by simp
  have i: "isl (performTOPSIS ts (st\<lparr>am_criteriaWeights := w\<rparr>)) = isl (performTOPSIS ts st)"
    "isl (performEuclideanDistance ts (st\<lparr>am_criteriaWeights := w\<rparr>))
       = isl (performEuclideanDistance ts st)"
    using performRanking_weights_irrelevant
    by (simp_all add: performTOPSIS_def performEuclideanDistance_def)
  have s: "sum_list (map cr_weight (am_criteriaWeights (handleRun ts st))) = 1"
    if "\<forall>cw \<in> set (am_criteriaWeights st). 0 \<le> cr_weight cw"
       "sum_list (map cr_weight (am_criteriaWeights st)) \<noteq> 0"
    unfolding stored by (rule distributeRemainingWeight_sum[OF that])
  show ?thesis using stored[of st] e i s by blast
qed

theorem handleRun_weights_witness:
  "0 \<le> cr_weight \<lparr>cr_criterion = ''Score'', cr_weight = 1/2\<rparr> \<and>
   sum_list (map cr_weight (am_criteriaWeights (ranking_example duplicate_rows Topsis (1/2)))) = 1/2 \<and>
   sum_list (map cr_weight (am_criteriaWeights
      (handleRun no_numbers (ranking_example duplicate_rows Topsis (1/2))))) = 1 \<and>
   am_error (handleRun no_numbers (ranking_example duplicate_rows Topsis (1/2))) = None"
proof -
  let ?st = "ranking_example duplicate_rows Topsis (1/2)"
  have cw: "am_criteriaWeights ?st = [\<lparr>cr_criterion = ''Score'', cr_weight = 1/2\<rparr>]"
    by (simp add: ranking_example_def)
  have h: "(\<forall>cw \<in> set (am_criteriaWeights ?st). 0 \<le> cr_weight cw) \<and>
           sum_list (map cr_weight (am_criteriaWeights ?st)) \<noteq> 0"
    unfolding cw by simp
  have "sum_list (map cr_weight (am_criteriaWeights (handleRun no_numbers ?st))) = 1"
    using handleRun_weights[of no_numbers ?st] h by blast
  moreover have "am_error (handleRun no_numbers ?st) = None" by code_simp
  moreover have "sum_list (map cr_weight (am_criteriaWeights ?st)) = 1/2" unfolding cw by simp
  ultimately show ?thesis by simp
qed

text \<open>
  The claim as stated fails on a weight map of sum 0.5: the run is not refused, the
  result reports the weight 0.5 it ranked with, and the stored weight has become 1
  although the caller never asked for a redistribution.
\<close>

theorem handleRun_no_enforcement_counterexample:
  "\<bar>sum_list (map cr_weight (am_criteriaWeights (ranking_example duplicate_rows Euclidean (1/2)))) - 1\<bar>
     > 1 / 1000 \<and>
   am_error (handleRun no_numbers (ranking_example duplicate_rows Euclidean (1/2))) = None \<and>
   map_option ar_weights (am_result (handleRun no_numbers (ranking_example duplicate_rows Euclidean (1/2))))
     = Some [(''Score'', 1/2)] \<and>
   map cr_weight (am_criteriaWeights (handleRun no_numbers (ranking_example duplicate_rows Euclidean (1/2))))
     = [1]"
  by code_simp

section \<open>Correlation: the numeric series of a column\<close>

lemma parseFloat_zero: "parseFloat ''0'' = Val 0"
  by code_simp

lemma notNaN_append: "notNaN (xs @ ys) = notNaN xs @ notNaN ys"
  by (induction xs rule: notNaN.induct) auto

lemma extracted_series:
  "notNaN (map (\<lambda>row. cellNumber ''0'' (cellAt row k)) rows) = seriesOfColumn rows k"
proof (induction rows)
  case Nil
  then show ?case by (simp add: seriesOfColumn_def)
next
  case (Cons row rows)
  have "notNaN [cellNumber ''0'' (cellAt row k)] =
        (case cellAt row k of
           Empty \<Rightarrow> [0]
         | NumCell r \<Rightarrow> [r]
         | StrCell s \<Rightarrow> if s = [] then [0] else (case parseFloat s of Val v \<Rightarrow> [v] | NaN \<Rightarrow> []))"
    by (cases "cellAt row k")
       (auto simp: cellNumber_def parseFloat_zero split: number.splits)
  then show ?case
    using Cons notNaN_append[of "[cellNumber ''0'' (cellAt row k)]"]
    by (simp add: seriesOfColumn_def)
qed

lemma extractVariables_append:
  "extractVariables ed (xs @ ys) acc =
     (case extractVariables ed xs acc of Inl e \<Rightarrow> Inl e | Inr acc' \<Rightarrow> extractVariables ed ys acc')"
proof (induction xs arbitrary: acc)
  case Nil
  then show ?case by (cases acc) simp
next
  case (Cons x xs)
  obtain a b where acc: "acc = (a, b)" by (cases acc)
  show ?case unfolding acc using Cons.IH
    by (simp add: Let_def split: option.splits)
qed

lemma extractVariables_maps:
  "extractVariables ed vs (nd0, st0) = Inr (nd, st) \<Longrightarrow>
     (\<forall>v \<in> set vs. \<exists>k. indexOf (ed_headers ed) v = Some k \<and>
         map_of nd v = Some (seriesOfColumn (ed_data ed) k) \<and>
         map_of st v = Some (calculateBasicStats (seriesOfColumn (ed_data ed) k)) \<and>
         seriesOfColumn (ed_data ed) k \<noteq> []) \<and>
     (\<forall>v. v \<notin> set vs \<longrightarrow> map_of nd v = map_of nd0 v \<and> map_of st v = map_of st0 v)"
proof (induction vs arbitrary: nd0 st0)
  case Nil
  then show ?case by simp
next
  case (Cons x xs)
  from Cons.prems obtain k where k: "indexOf (ed_headers ed) x = Some k"
    by (auto split: option.splits)
  let ?vals = "seriesOfColumn (ed_data ed) k"
  have ne: "?vals \<noteq> []"
    using Cons.prems k by (auto simp: Let_def extracted_series split: if_splits)
  have rest: "extractVariables ed xs (AList.update x ?vals nd0,
                 AList.update x (calculateBasicStats ?vals) st0) = Inr (nd, st)"
    using Cons.prems k ne by (simp add: Let_def extracted_series)
  note IH = Cons.IH[OF rest]
  show ?case
  proof (intro conjI ballI allI impI)
    fix v assume v: "v \<in> set (x # xs)"
    show "\<exists>k. indexOf (ed_headers ed) v = Some k \<and>
         map_of nd v = Some (seriesOfColumn (ed_data ed) k) \<and>
         map_of st v = Some (calculateBasicStats (seriesOfColumn (ed_data ed) k)) \<and>
         seriesOfColumn (ed_data ed) k \<noteq> []"
    proof (cases "v \<in> set xs")
      case True
      then show ?thesis using IH by blast
    next
      case False
      then have vx: "v = x" using v by simp
      have "map_of nd v = map_of (AList.update x ?vals nd0) v"
        "map_of st v = map_of (AList.update x (calculateBasicStats ?vals) st0) v"
        using IH False by blast+
      then show ?thesis using vx k ne by (simp add: update_conv')
    qed
  next
    fix v assume "v \<notin> set (x # xs)"
    then have "v \<notin> set xs" "v \<noteq> x" by auto
    then show "map_of nd v = map_of nd0 v" using IH by (simp add: update_conv')
  next
    fix v assume "v \<notin> set (x # xs)"
    then have "v \<notin> set xs" "v \<noteq> x" by auto
    then show "map_of st v = map_of st0 v" using IH by (simp add: update_conv')
  qed
qed

lemma extractVariables_empty_column:
  assumes "indexOf (ed_headers ed) v = Some k" "seriesOfColumn (ed_data ed) k = []"
  shows "extractVariables ed (v # post) acc = Inl (''Variable '' @ quoted v @ '' contains no numeric data.'')"
  using assms by (cases acc) (simp add: Let_def extracted_series)

text \<open>
  Claim C4, as amended. When the extraction succeeds, the series kept for every
  selected variable is, in row order, what seriesOfColumn describes: a cell holding a
  text that parses to no number is dropped, while an absent cell and an empty text
  contribute the value 0; and the series is not empty. When the variables before a
  selected variable are extracted without error and that variable's column yields no
  value at all, the extraction fails with the message naming that variable.
\<close>

theorem extractVariableData_series:
  "(extractVariableData ed sel = Inr (nd, st) \<longrightarrow>
      (\<forall>v \<in> set sel. \<exists>k. indexOf (ed_headers ed) v = Some k \<and>
          map_of nd v = Some (seriesOfColumn (ed_data ed) k) \<and>
          seriesOfColumn (ed_data ed) k \<noteq> [])) \<and>
   (sel = pre @ v # post \<and> \<not> isl (extractVariableData ed pre) \<and>
    indexOf (ed_headers ed) v = Some k \<and> seriesOfColumn (ed_data ed) k = [] \<longrightarrow>
      extractVariableData ed sel = Inl (''Variable '' @ quoted v @ '' contains no numeric data.''))"
proof (intro conjI impI)
  assume "extractVariableData ed sel = Inr (nd, st)"
  then have "extractVariables ed sel ([], []) = Inr (nd, st)"
    by (simp add: extractVariableData_def)
  from extractVariables_maps[OF this]
  show "\<forall>v \<in> set sel. \<exists>k. indexOf (ed_headers ed) v = Some k \<and>
          map_of nd v = Some (seriesOfColumn (ed_data ed) k) \<and>
          seriesOfColumn (ed_data ed) k \<noteq> []"
    by blast
next
  assume a: "sel = pre @ v # post \<and> \<not> isl (extractVariableData ed pre) \<and>
    indexOf (ed_headers ed) v = Some k \<and> seriesOfColumn (ed_data ed) k = []"
  then obtain acc where acc: "extractVariables ed pre ([], []) = Inr acc"
    by (cases "extractVariables ed pre ([], [])") (auto simp: extractVariableData_def)
  have "extractVariables ed (v # post) acc
          = Inl (''Variable '' @ quoted v @ '' contains no numeric data.'')"
    using a by (intro extractVariables_empty_column) auto
  then show "extractVariableData ed sel
          = Inl (''Variable '' @ quoted v @ '' contains no numeric data.'')"
    using a acc by (simp add: extractVariableData_def extractVariables_append)
qed

theorem extractVariableData_series_witness:
  "map_of (fst (projr (extractVariableData correlation_sheet [''X'', ''Y'']))) ''X'' = Some [1, 0, 0, 5] \<and>
   indexOf (ed_headers correlation_sheet) ''X'' = Some 0 \<and>
   seriesOfColumn (ed_data correlation_sheet) 0 = [1, 0, 0, 5] \<and>
   indexOf (ed_headers correlation_sheet) ''Z'' = Some 2 \<and>
   seriesOfColumn (ed_data correlation_sheet) 2 = [] \<and>
   extractVariableData correlation_sheet ([''X''] @ ''Z'' # [''Y''])
     = Inl (''Variable '' @ quoted ''Z'' @ '' contains no numeric data.'')"
proof -
  let ?out = "extractVariableData correlation_sheet [''X'', ''Y'']"
  have "\<not> isl ?out" by code_simp
  then have h1: "?out = Inr (fst (projr ?out), snd (projr ?out))" by (cases ?out) simp_all
  have x: "''X'' \<in> set [''X'', ''Y'']" by simp
  have i0: "indexOf (ed_headers correlation_sheet) ''X'' = Some 0"
    and i2: "indexOf (ed_headers correlation_sheet) ''Z'' = Some 2"
    by (simp_all add: correlation_sheet_def)
  have s0: "seriesOfColumn (ed_data correlation_sheet) 0 = [1, 0, 0, 5]"
    and s2: "seriesOfColumn (ed_data correlation_sheet) 2 = []"
    by code_simp+
  have pre: "\<not> isl (extractVariableData correlation_sheet [''X''])" by code_simp
  note t = extractVariableData_series[of correlation_sheet "[''X'', ''Y'']" "fst (projr ?out)"
      "snd (projr ?out)" "[''X'']" "''Z''" "[''Y'']" 2]
  have a: "map_of (fst (projr ?out)) ''X'' = Some [1, 0, 0, 5]"
    using t h1 x i0 s0 by fastforce
  note u = extractVariableData_series[of correlation_sheet "[''X''] @ ''Z'' # [''Y'']" "[]" "[]"
      "[''X'']" "''Z''" "[''Y'']" 2]
  have b: "extractVariableData correlation_sheet ([''X''] @ ''Z'' # [''Y''])
     = Inl (''Variable '' @ quoted ''Z'' @ '' contains no numeric data.'')"
    using u pre i2 s2 by blast
  show ?thesis using a b i0 i2 s0 s2 by blast
qed

text \<open>
  The claim as stated fails on absent and empty cells: column X of the example sheet
  holds 1, an absent cell, an empty text, the text abc and 5, and its series is
  1, 0, 0, 5.
\<close>

theorem extractVariableData_empty_cell_counterexample:
  "map (\<lambda>row. cellAt row 0) (ed_data correlation_sheet)
     = [NumCell 1, Empty, StrCell [], StrCell ''abc'', NumCell 5] \<and>
   map_sum id fst (extractVariableData correlation_sheet [''X'', ''Y''])
     = Inr [(''X'', [1, 0, 0, 5]), (''Y'', [2, 4, 13/2, 8, 11])]"
  by code_simp

section \<open>Correlation: the matrix\<close>

lemma pearson_loop_swap:
  "foldl (\<lambda>(numerator, xss, yss) (xi, yi).
            (numerator + (xi - xm) * (yi - ym), xss + (xi - xm) * (xi - xm),
             yss + (yi - ym) * (yi - ym)))
     (a, b, c) (zip x y) = (N, X, Y) \<Longrightarrow>
   foldl (\<lambda>(numerator, xss, yss) (xi, yi).
            (numerator + (xi - ym) * (yi - xm), xss + (xi - ym) * (xi - ym),
             yss + (yi - xm) * (yi - xm)))
     (a, c, b) (zip y x) = (N, Y, (X::real))"
proof (induction x arbitrary: y a b c)
  case Nil
  then show ?case by simp
next
  case (Cons xi x)
  show ?case
  proof (cases y)
    case Nil
    then show ?thesis using Cons.prems by simp
  next
    case (Cons yi y')
    have "foldl (\<lambda>(numerator, xss, yss) (xi, yi).
            (numerator + (xi - xm) * (yi - ym), xss + (xi - xm) * (xi - xm),
             yss + (yi - ym) * (yi - ym)))
          (a + (xi - xm) * (yi - ym), b + (xi - xm) * (xi - xm), c + (yi - ym) * (yi - ym))
          (zip x y') = (N, X, Y)"
      using Cons.prems Cons by (simp add: Let_def)
    from Cons.IH[OF this] show ?thesis
      using Cons by (simp add: Let_def mult.commute)
  qed
qed

lemma calculatePearsonCorrelation_sym:
  "calculatePearsonCorrelation x y = calculatePearsonCorrelation y x"
proof -
  define n where "n = min (length x) (length y)"
  define xm where "xm = foldl (\<lambda>sum val. sum + val) 0 x / real n"
  define ym where "ym = foldl (\<lambda>sum val. sum + val) 0 y / real n"
  obtain N X Y where l: "foldl (\<lambda>(numerator, xss, yss) (xi, yi).
            (numerator + (xi - xm) * (yi - ym), xss + (xi - xm) * (xi - xm),
             yss + (yi - ym) * (yi - ym)))
     (0, 0, 0) (zip x y) = (N, X, Y)"
    using prod_cases3 by blast
  note r = pearson_loop_swap[OF l]
  have n': "min (length y) (length x) = n" by (simp add: n_def min.commute)
  show ?thesis
    unfolding calculatePearsonCorrelation_def n' n_def[symmetric] Let_def
      xm_def[symmetric] ym_def[symmetric] l r
    by (simp add: mult.commute)
qed

lemma correlationCell_sym: "correlationCell td a b = correlationCell td b a"
  by (simp add: correlationCell_def Let_def calculatePearsonCorrelation_sym[of "lookupOr [] td a"]
      min.commute)

text \<open>
  Claim C6. Whenever the correlation run produces a matrix, it is square over the
  selected variables, symmetric in the coefficient, the p-value and the significance
  flag, and every diagonal cell is coefficient 1, p-value 0, significant.
\<close>

theorem correlation_matrix_symmetric:
  assumes "handleRunCorrelation excelData sel = Inr M" "i < length sel" "j < length sel"
  shows "length M = length sel \<and> length (M ! i) = length sel \<and>
         co_coefficient (M ! i ! j) = co_coefficient (M ! j ! i) \<and>
         co_pValue (M ! i ! j) = co_pValue (M ! j ! i) \<and>
         co_isSignificant (M ! i ! j) = co_isSignificant (M ! j ! i) \<and>
         M ! i ! i = \<lparr>co_coefficient = 1, co_pValue = 0, co_isSignificant = True\<rparr>"
proof -
  obtain td where M: "M = map (\<lambda>var1. map (\<lambda>var2. correlationCell td var1 var2) sel) sel"
    using assms(1)
    by (auto simp: handleRunCorrelation_def Let_def split: option.splits if_splits sum.splits)
  have ij: "M ! i ! j = correlationCell td (sel ! i) (sel ! j)"
    and ji: "M ! j ! i = correlationCell td (sel ! j) (sel ! i)"
    and ii: "M ! i ! i = correlationCell td (sel ! i) (sel ! i)"
    using assms(2,3) by (simp_all add: M)
  have d: "correlationCell td (sel ! i) (sel ! i) = \<lparr>co_coefficient = 1, co_pValue = 0, co_isSignificant = True\<rparr>"
    by (simp add: correlationCell_def)
  show ?thesis
    unfolding ij ji ii d using assms(2) correlationCell_sym[of td "sel ! i" "sel ! j"]
    by (simp add: M)
qed


theorem correlation_matrix_symmetric_witness:
  "handleRunCorrelation (Some correlation_sheet) [''X'', ''Y'']
     = Inr (projr (handleRunCorrelation (Some correlation_sheet) [''X'', ''Y''])) \<and>
   length (projr (handleRunCorrelation (Some correlation_sheet) [''X'', ''Y''])) = 2 \<and>
   co_coefficient (projr (handleRunCorrelation (Some correlation_sheet) [''X'', ''Y'']) ! 0 ! 1)
     = co_coefficient (projr (handleRunCorrelation (Some correlation_sheet) [''X'', ''Y'']) ! 1 ! 0) \<and>
   projr (handleRunCorrelation (Some correlation_sheet) [''X'', ''Y'']) ! 0 ! 0
     = \<lparr>co_coefficient = 1, co_pValue = 0, co_isSignificant = True\<rparr>"
proof -
  let ?out = "handleRunCorrelation (Some correlation_sheet) [''X'', ''Y'']"
  have "\<not> isl ?out" by code_simp
  then have h: "?out = Inr (projr ?out)" by (cases ?out) simp_all
  have l: "(0::nat) < length [''X'', ''Y'']" "(1::nat) < length [''X'', ''Y'']" by simp_all
  from correlation_matrix_symmetric[OF h l(1) l(2)] h show ?thesis by simp
qed

section \<open>Forecasting: a run reads the history of the run before\<close>

lemma runPrediction_first_run:
  "fc_supplierHistory st = [] \<Longrightarrow> extractData numberToString st = Inr history \<Longrightarrow>
   fc_predictionResults (runPrediction numberToString localeCompare st) = [] \<and>
   fc_supplierHistory (runPrediction numberToString localeCompare st) = history"
  by (simp add: runPrediction_def Let_def stable_sort_def)

lemma runPrediction_ignores_dataset:
  assumes "extractData numberToString st = Inr history"
    and "extractData numberToString st' = Inr history'"
    and "fc_supplierHistory st' = fc_supplierHistory st"
    and "fc_alphaValue st' = fc_alphaValue st"
    and "fc_declineThreshold st' = fc_declineThreshold st"
  shows "fc_predictionResults (runPrediction numberToString localeCompare st')
         = fc_predictionResults (runPrediction numberToString localeCompare st)"
  unfolding runPrediction_def Let_def assms by simp

text \<open>
  Claim C9 does not hold of the code. runPrediction computes its results from the
  supplier history held in the component state, which is the history extracted by the
  run before, not the one it has just extracted. On the example sheet, with the same
  dataset and the same configuration both times, the first run publishes no result at
  all and the second run publishes the forecast for the one supplier.
\<close>

theorem runPrediction_depends_on_previous_run:
  "fc_excelData (runPrediction no_numbers no_collation forecast_example) = fc_excelData forecast_example \<and>
   fc_timeColumn (runPrediction no_numbers no_collation forecast_example) = fc_timeColumn forecast_example \<and>
   fc_supplierColumn (runPrediction no_numbers no_collation forecast_example)
     = fc_supplierColumn forecast_example \<and>
   fc_categoryColumns (runPrediction no_numbers no_collation forecast_example)
     = fc_categoryColumns forecast_example \<and>
   fc_alphaValue (runPrediction no_numbers no_collation forecast_example) = fc_alphaValue forecast_example \<and>
   fc_declineThreshold (runPrediction no_numbers no_collation forecast_example)
     = fc_declineThreshold forecast_example \<and>
   fc_error (runPrediction no_numbers no_collation forecast_example) = None \<and>
   fc_predictionResults (runPrediction no_numbers no_collation forecast_example) = [] \<and>
   fc_predictionResults
     (runPrediction no_numbers no_collation (runPrediction no_numbers no_collation forecast_example))
     = [\<lparr>pr_supplier = ''Acme'', pr_category = ''Quality'',
         pr_actualValues = [90, 80, 60], pr_predictedValues = [90, 90, 85],
         pr_nextPrediction = 145 / 2, pr_accuracy = 265 / 3, pr_trend = Down,
         pr_letterGrade = ''C'', pr_predictedLetterGrade = ''A''\<rparr>]"
  by code_simp

end
